theory Spec2Isabelle
  imports Complex_Main "HOL-Library.Multiset"
begin

section \<open>Data model\<close>

text \<open>
  The operator library of \<^verbatim>\<open>src/graph/expression_operators.cpp\<close> builds nodes of an
  expression graph. An \<^verbatim>\<open>Expr\<close> is a handle to a node: it is compared by identity
  and gives access to the node's shape. The graph owns the nodes, so every operator takes
  the graph and returns it extended by the nodes it has constructed. An abort anywhere
  ends the call; it is the \<open>Inl\<close> branch of the result.
\<close>

type_synonym Shape = "int list"

datatype Error = ShapeMismatch | OutOfRange | DivisionByZero | ConfigurationError string

datatype DeviceType = gpu | cpu

record Expr =
  ident :: nat
  shape :: Shape

datatype NodeOp =
    SigmoidNodeOp Expr
  | ReLUNodeOp Expr
  | PReLUNodeOp real Expr
  | SwishNodeOp Expr
  | TanhNodeOp "Expr list"
  | ClipNodeOp Expr real
  | NegNodeOp Expr
  | SoftmaxNodeOp Expr
  | PlusNodeOp Expr Expr
  | MultNodeOp Expr Expr
  | DivNodeOp Expr Expr
  | ScalarAddNodeOp Expr real
  | ScalarMultNodeOp Expr real
  | ReshapeNodeOp Expr Shape
  | TransposeNodeOp Expr "int list"
  | SumNodeOp Expr int
  | ScalarProductNodeOp Expr Expr int
  | DotNodeOp Expr Expr bool bool real
  | AffineNodeOp "Expr list" bool bool real
  | OnesNode Shape
  | Int16QuantizeNodeOp Expr real
  | Int16DotNodeOp Expr Expr real
  | Int16AffineNodeOp Expr Expr Expr real

text \<open>
  The graph: the nodes in the order of their construction (the node with identity \<open>i\<close>
  is \<open>nodes g ! i\<close>), the marks left by \<^verbatim>\<open>e->record(tuner, hash, stop)\<close>, and what the
  operators read through \<^verbatim>\<open>a->graph()\<close>: \<^verbatim>\<open>isOptimized()\<close>,
  \<^verbatim>\<open>getDeviceId().type\<close> and \<^verbatim>\<open>getBackend()->getClip()\<close>.

  The node classes (\<^verbatim>\<open>graph/node_operators*.h\<close>) are not among the sources. Each
  computes the shape of its node in its constructor, or aborts there; that computation is
  the parameter \<open>opShape\<close> of the model, and nothing is assumed about it.
\<close>

record ExpressionGraph =
  nodes :: "NodeOp list"
  recorded :: "(Expr \<times> nat \<times> bool) list"
  isOptimized :: bool
  deviceType :: DeviceType
  getClip :: real
  opShape :: "NodeOp \<Rightarrow> Error + Shape"

type_synonym 'a Result = "Error + 'a \<times> ExpressionGraph"

definition bnd :: "Error + 'a \<Rightarrow> ('a \<Rightarrow> Error + 'b) \<Rightarrow> Error + 'b" where
  "bnd m f = (case m of Inl e \<Rightarrow> Inl e | Inr x \<Rightarrow> f x)"

text \<open>
  Modelled from the spec: the template \<^verbatim>\<open>Expression<T>(args...)\<close> and the graph's
  registration of a node are not among the sources. A construction call builds the node
  \<open>T(args...)\<close>, whose constructor computes its shape or aborts, and returns a new
  expression for it; the node has the next identity of the graph. The graph may also
  return an existing, structurally identical node instead: the model leaves that out,
  every construction adds its node.
\<close>

definition Expression :: "ExpressionGraph \<Rightarrow> NodeOp \<Rightarrow> Expr Result" where
  "Expression g n =
     (case opShape g n of
        Inl e \<Rightarrow> Inl e
      | Inr s \<Rightarrow> Inr (\<lparr>ident = length (nodes g), shape = s\<rparr>, g\<lparr>nodes := nodes g @ [n]\<rparr>))"

text \<open>The node an expression stands for, when it is a node of the graph.\<close>

definition nodeOf :: "ExpressionGraph \<Rightarrow> Expr \<Rightarrow> NodeOp option" where
  "nodeOf g e = (if ident e < length (nodes g) then Some (nodes g ! ident e) else None)"

subsection \<open>Shape\<close>

text \<open>
  The class \<^verbatim>\<open>Shape\<close> is not among the sources. A shape is the ordered sequence of its
  dimensions, the rank its length; its methods follow the specification.
\<close>

text \<open>
  Modelled from the spec: \<^verbatim>\<open>Shape::axis(ax)\<close>, which is not among the sources. A negative
  axis \<open>ax\<close> addresses \<open>rank + ax\<close>; resolution fails when the resolved index is outside
  \<open>[0, rank)\<close>.
\<close>

definition Shape_axis :: "Shape \<Rightarrow> int \<Rightarrow> Error + nat" where
  "Shape_axis s ax =
     (let r = (if ax < 0 then int (length s) + ax else ax)
      in if 0 \<le> r \<and> r < int (length s) then Inr (nat r) else Inl OutOfRange)"

text \<open>
  Modelled from the spec: \<^verbatim>\<open>Shape::operator[](i)\<close>, which is not among the sources. It
  reads the dimension at an index resolved like an axis.
\<close>

definition Shape_get :: "Shape \<Rightarrow> int \<Rightarrow> Error + int" where
  "Shape_get s i = bnd (Shape_axis s i) (\<lambda>k. Inr (s ! k))"

text \<open>
  Modelled from the spec: \<^verbatim>\<open>Shape::set(i, v)\<close>, which is not among the sources. It
  writes the dimension at an index resolved like an axis.
\<close>

definition Shape_set :: "Shape \<Rightarrow> int \<Rightarrow> int \<Rightarrow> Error + Shape" where
  "Shape_set s i v = bnd (Shape_axis s i) (\<lambda>k. Inr (s[k := v]))"

text \<open>
  Modelled from the spec: \<^verbatim>\<open>Shape::elements()\<close>, which is not among the sources: the
  element count, the product of the dimensions.
\<close>

definition Shape_elements :: "Shape \<Rightarrow> int" where
  "Shape_elements s = prod_list s"

text \<open>
  Modelled from the spec: the default \<^verbatim>\<open>Shape\<close> after \<^verbatim>\<open>resize(n)\<close>, neither among the
  sources. The shape that \<open>atleast_nd\<close> starts from is padded with 1s: it holds 1 in each
  of its \<open>n\<close> positions.
\<close>

definition Shape_resize :: "nat \<Rightarrow> Shape" where
  "Shape_resize n = replicate n 1"

section \<open>Operators\<close>

definition sigmoid :: "ExpressionGraph \<Rightarrow> Expr \<Rightarrow> Expr Result" where
  "sigmoid g a = Expression g (SigmoidNodeOp a)"

definition relu :: "ExpressionGraph \<Rightarrow> Expr \<Rightarrow> Expr Result" where
  "relu g a = Expression g (ReLUNodeOp a)"

definition leakyrelu :: "ExpressionGraph \<Rightarrow> Expr \<Rightarrow> Expr Result" where
  "leakyrelu g a = Expression g (PReLUNodeOp 0.01 a)"

definition prelu :: "ExpressionGraph \<Rightarrow> Expr \<Rightarrow> real \<Rightarrow> Expr Result" where
  "prelu g a alpha = Expression g (PReLUNodeOp alpha a)"

definition clip :: "ExpressionGraph \<Rightarrow> Expr \<Rightarrow> real \<Rightarrow> Expr Result" where
  "clip g a c = (if c = 0 then Inr (a, g) else Expression g (ClipNodeOp a c))"

definition swish :: "ExpressionGraph \<Rightarrow> Expr \<Rightarrow> Expr Result" where
  "swish g a = Expression g (SwishNodeOp a)"

text \<open>\<^verbatim>\<open>Expr operator-(Expr a)\<close>\<close>

definition operator_neg :: "ExpressionGraph \<Rightarrow> Expr \<Rightarrow> Expr Result" where
  "operator_neg g a = Expression g (NegNodeOp a)"

text \<open>\<^verbatim>\<open>Expr operator+(Expr a, Expr b)\<close>, \<^verbatim>\<open>operator*\<close> and \<^verbatim>\<open>operator/\<close> on two expressions\<close>

definition operator_plus :: "ExpressionGraph \<Rightarrow> Expr \<Rightarrow> Expr \<Rightarrow> Expr Result" where
  "operator_plus g a b = Expression g (PlusNodeOp a b)"

definition operator_mult :: "ExpressionGraph \<Rightarrow> Expr \<Rightarrow> Expr \<Rightarrow> Expr Result" where
  "operator_mult g a b = Expression g (MultNodeOp a b)"

definition operator_div :: "ExpressionGraph \<Rightarrow> Expr \<Rightarrow> Expr \<Rightarrow> Expr Result" where
  "operator_div g a b = Expression g (DivNodeOp a b)"

text \<open>
  \<^verbatim>\<open>Expr operator-(float a, Expr b)\<close> is \<^verbatim>\<open>Expression<ScalarAddNodeOp>(-b, a)\<close>: it negates
  \<open>b\<close> with the unary operator first. \<^verbatim>\<open>Expr operator*(Expr a, float b)\<close> is a
  \<^verbatim>\<open>ScalarMultNodeOp\<close>.
\<close>

definition operator_minus_float_Expr :: "ExpressionGraph \<Rightarrow> real \<Rightarrow> Expr \<Rightarrow> Expr Result" where
  "operator_minus_float_Expr g a b =
     bnd (operator_neg g b) (\<lambda>(nb, g1). Expression g1 (ScalarAddNodeOp nb a))"

definition operator_mult_Expr_float :: "ExpressionGraph \<Rightarrow> Expr \<Rightarrow> real \<Rightarrow> Expr Result" where
  "operator_mult_Expr_float g a b = Expression g (ScalarMultNodeOp a b)"

definition reshape :: "ExpressionGraph \<Rightarrow> Expr \<Rightarrow> Shape \<Rightarrow> Expr Result" where
  "reshape g a s = Expression g (ReshapeNodeOp a s)"

text \<open>\<^verbatim>\<open>Expr transpose(Expr a)\<close> swaps the last two axes.\<close>

definition transpose_last :: "ExpressionGraph \<Rightarrow> Expr \<Rightarrow> Expr Result" where
  "transpose_last g a =
     (let n = length (shape a);
          axes = map int [0..<n];
          axes' = (if n > 1 then (axes[n - 1 := int n - 2])[n - 2 := int n - 1] else axes)
      in Expression g (TransposeNodeOp a axes'))"

text \<open>
  The same permutation in the specification's words: the identity on \<open>[0, n)\<close> with
  exactly the last two positions exchanged (the identity when \<open>n \<le> 1\<close>).
\<close>

definition last_two_swapped :: "nat \<Rightarrow> int list" where
  "last_two_swapped n =
     map (\<lambda>k. int (if n > 1 \<and> k = n - 1 then n - 2 else if n > 1 \<and> k = n - 2 then n - 1 else k))
       [0..<n]"

text \<open>\<^verbatim>\<open>Expr transpose(Expr a, const std::vector<int>& axes)\<close>\<close>

definition transpose_axes :: "ExpressionGraph \<Rightarrow> Expr \<Rightarrow> int list \<Rightarrow> Expr Result" where
  "transpose_axes g a axes = Expression g (TransposeNodeOp a axes)"

text \<open>
  \<^verbatim>\<open>std::swap(axes[axis1], axes[axis2])\<close> on the identity permutation; both indices are
  resolved axes, hence inside the vector.
\<close>

definition swapAxes :: "ExpressionGraph \<Rightarrow> Expr \<Rightarrow> int \<Rightarrow> int \<Rightarrow> Expr Result" where
  "swapAxes g x axis1 axis2 =
     bnd (Shape_axis (shape x) axis1) (\<lambda>axis1'.
     bnd (Shape_axis (shape x) axis2) (\<lambda>axis2'.
       if axis1' = axis2' then Inr (x, g)
       else
         (let axes = map int [0..<length (shape x)];
              axes' = (axes[axis1' := axes ! axis2'])[axis2' := axes ! axis1']
          in transpose_axes g x axes')))"

function softmax :: "ExpressionGraph \<Rightarrow> Expr \<Rightarrow> int \<Rightarrow> Expr Result" where
  "softmax g a axis =
     (if axis \<noteq> - 1
      then bnd (swapAxes g a axis (- 1)) (\<lambda>(x, g1).
           bnd (softmax g1 x (- 1)) (\<lambda>(y, g2).
           swapAxes g2 y axis (- 1)))
      else Expression g (SoftmaxNodeOp a))"
  by pat_completeness auto
termination
  by (relation "measure (\<lambda>(g, a, axis). if axis = - 1 then 0 else 1)") auto

text \<open>
  The permutation of \<open>[0, n)\<close> that exchanges the positions \<open>i\<close> and \<open>j\<close>, followed by
  the three steps as the specification words them: swap the target axis to the last
  position, compute the softmax there with the last-axis primitive, swap back.
\<close>

definition swap_permutation :: "nat \<Rightarrow> nat \<Rightarrow> nat \<Rightarrow> int list" where
  "swap_permutation n i j = map (\<lambda>k. int (if k = i then j else if k = j then i else k)) [0..<n]"

definition softmax_pipeline :: "ExpressionGraph \<Rightarrow> Expr \<Rightarrow> int \<Rightarrow> Expr Result" where
  "softmax_pipeline g a axis =
     bnd (swapAxes g a axis (- 1)) (\<lambda>(x, g1).
     bnd (Expression g1 (SoftmaxNodeOp x)) (\<lambda>(y, g2).
     swapAxes g2 y axis (- 1)))"

fun isSoftmaxNodeOp :: "NodeOp \<Rightarrow> bool" where
  "isSoftmaxNodeOp (SoftmaxNodeOp a) = True"
| "isSoftmaxNodeOp n = False"

fun isTransposeNodeOp :: "NodeOp \<Rightarrow> bool" where
  "isTransposeNodeOp (TransposeNodeOp a axes) = True"
| "isTransposeNodeOp n = False"

text \<open>
  \<^verbatim>\<open>Expr softmax(Expr a, Expr zeroOneMask, int axis)\<close>. The literal is kept as it is
  written, \<^verbatim>\<open>-99999999.f\<close>; the scalars of the model are reals.
\<close>

definition softmax_mask :: "ExpressionGraph \<Rightarrow> Expr \<Rightarrow> Expr \<Rightarrow> int \<Rightarrow> Expr Result" where
  "softmax_mask g a zeroOneMask axis =
     bnd (operator_minus_float_Expr g 1 zeroOneMask) (\<lambda>(d, g1).
     bnd (operator_mult_Expr_float g1 d (- 99999999)) (\<lambda>(logMask, g2).
     bnd (operator_plus g2 a logMask) (\<lambda>(s, g3).
     softmax g3 s axis)))"

subsection \<open>Shape manipulation\<close>

text \<open>
  The loop of \<^verbatim>\<open>atleast_nd\<close>:
  \<^verbatim>\<open>for(int i = 1; i <= (int)a->shape().size(); ++i) nShape.set(-i, a->shape()[-i]);\<close>
\<close>

function atleast_nd_loop :: "Shape \<Rightarrow> nat \<Rightarrow> Shape \<Rightarrow> Error + Shape" where
  "atleast_nd_loop sa i nShape =
     (if i \<le> length sa
      then bnd (Shape_get sa (- int i)) (\<lambda>d.
           bnd (Shape_set nShape (- int i) d) (\<lambda>nShape'.
           atleast_nd_loop sa (Suc i) nShape'))
      else Inr nShape)"
  by pat_completeness auto
termination
  by (relation "measure (\<lambda>(sa, i, nShape). Suc (length sa) - i)") auto

definition atleast_nd :: "ExpressionGraph \<Rightarrow> Expr \<Rightarrow> nat \<Rightarrow> Expr Result" where
  "atleast_nd g a dims =
     (if length (shape a) \<ge> dims then Inr (a, g)
      else bnd (atleast_nd_loop (shape a) 1 (Shape_resize dims)) (\<lambda>nShape.
           reshape g a nShape))"

text \<open>
  The shape the specification describes: the shape of \<open>a\<close>, left-padded with 1s to
  rank \<open>n\<close>.
\<close>

definition left_padded :: "Shape \<Rightarrow> nat \<Rightarrow> Shape" where
  "left_padded s n = replicate (n - length s) 1 @ s"

subsection \<open>Reductions and the weighted average\<close>

definition sum_Expr :: "ExpressionGraph \<Rightarrow> Expr \<Rightarrow> int \<Rightarrow> Expr Result" where
  "sum_Expr g a ax = Expression g (SumNodeOp a ax)"

definition scalar_product :: "ExpressionGraph \<Rightarrow> Expr \<Rightarrow> Expr \<Rightarrow> int \<Rightarrow> Expr Result" where
  "scalar_product g a b ax = Expression g (ScalarProductNodeOp a b ax)"

definition weighted_average :: "ExpressionGraph \<Rightarrow> Expr \<Rightarrow> Expr \<Rightarrow> int \<Rightarrow> Expr Result" where
  "weighted_average g inp weights ax =
     bnd (scalar_product g inp weights ax) (\<lambda>(p, g1).
     bnd (sum_Expr g1 weights ax) (\<lambda>(s, g2).
     operator_div g2 p s))"

subsection \<open>The products\<close>

text \<open>
  Modelled from the spec: \<^verbatim>\<open>cpu::int16::quantize(expr, clipValue)\<close> of
  \<^verbatim>\<open>tensors/cpu/int16.h\<close>, which is not among the sources. The quantization collaborator
  returns an expression: a node of its own kind over the operand and the clip value.
\<close>

definition int16_quantize :: "ExpressionGraph \<Rightarrow> Expr \<Rightarrow> real \<Rightarrow> Expr Result" where
  "int16_quantize g a clipValue = Expression g (Int16QuantizeNodeOp a clipValue)"

text \<open>
  Modelled from the spec: \<^verbatim>\<open>cpu::int16::dot(qa, qb, scale)\<close> of the same absent header,
  an expression over the two quantized operands.
\<close>

definition int16_dot :: "ExpressionGraph \<Rightarrow> Expr \<Rightarrow> Expr \<Rightarrow> real \<Rightarrow> Expr Result" where
  "int16_dot g a b scale = Expression g (Int16DotNodeOp a b scale)"



text \<open>
  C++ does not specify the order in which the arguments of a call are evaluated, and the
  two operands of a product are both arguments that construct nodes. The order is a
  parameter of the model: the two arguments are evaluated one after the other, the left
  one first or the right one first.
\<close>

datatype ArgOrder = LeftToRight | RightToLeft

definition arguments ::
  "ArgOrder \<Rightarrow> ExpressionGraph \<Rightarrow> (ExpressionGraph \<Rightarrow> 'a Result) \<Rightarrow> (ExpressionGraph \<Rightarrow> 'b Result)
     \<Rightarrow> ('a \<times> 'b) Result" where
  "arguments order g f1 f2 =
     (case order of
        LeftToRight \<Rightarrow> bnd (f1 g) (\<lambda>(x, g1). bnd (f2 g1) (\<lambda>(y, g2). Inr ((x, y), g2)))
      | RightToLeft \<Rightarrow> bnd (f2 g) (\<lambda>(y, g1). bnd (f1 g1) (\<lambda>(x, g2). Inr ((x, y), g2))))"

definition dot ::
  "ArgOrder \<Rightarrow> ExpressionGraph \<Rightarrow> Expr \<Rightarrow> Expr \<Rightarrow> bool \<Rightarrow> bool \<Rightarrow> real \<Rightarrow> Expr Result" where
  "dot order g a b transA transB scale =
     (let device = deviceType g; clipValue = getClip g
      in if isOptimized g \<and> device = cpu
         then bnd (arguments order g
                    (\<lambda>g0. bnd (if transA then transpose_last g0 a else Inr (a, g0)) (\<lambda>(a', g1).
                          int16_quantize g1 a' clipValue))
                    (\<lambda>g0. bnd (if transB then Inr (b, g0) else transpose_last g0 b) (\<lambda>(b', g1).
                          int16_quantize g1 b' clipValue)))
                (\<lambda>((qa, qb), g1). int16_dot g1 qa qb scale)
         else bnd (arguments order g (\<lambda>g0. clip g0 a clipValue) (\<lambda>g0. clip g0 b clipValue))
                (\<lambda>((ac, bc), g1). Expression g1 (DotNodeOp ac bc transA transB scale)))"

text \<open>
  \<^verbatim>\<open>int rows = a->shape().elements() / a->shape()[-1]\<close>: the division of C++ integers
  truncates towards zero, and a zero divisor ends the process.
\<close>

definition cdiv :: "int \<Rightarrow> int \<Rightarrow> int" where
  "cdiv a b = sgn a * sgn b * (\<bar>a\<bar> div \<bar>b\<bar>)"


subsection \<open>The tuner\<close>

text \<open>
  \<^verbatim>\<open>Shape::hash()\<close> and \<^verbatim>\<open>util::hash_combine(seed, v)\<close> are not among the sources;
  they are parameters of the model. \<^verbatim>\<open>hash_combine\<close> is called with a
  \<^verbatim>\<open>size_t\<close>, a \<^verbatim>\<open>bool\<close> and an \<^verbatim>\<open>int\<close>.
\<close>

datatype HashArg = HashSize nat | HashBool bool | HashInt int

record Hashing =
  shapeHash :: "Shape \<Rightarrow> nat"
  hash_combine :: "nat \<Rightarrow> HashArg \<Rightarrow> nat"



text \<open>
  Modelled from the spec: \<^verbatim>\<open>e->record(tuner, hash, stop)\<close> of the node class, which is
  not among the sources. It tags the node with the fingerprint and with whether it is
  the final node of the candidate.
\<close>

definition Node_record :: "ExpressionGraph \<Rightarrow> Expr \<Rightarrow> nat \<Rightarrow> bool \<Rightarrow> ExpressionGraph" where
  "Node_record g e h stop = g\<lparr>recorded := recorded g @ [(e, h, stop)]\<rparr>"

subsection \<open>affine\<close>

text \<open>The lambda \<^verbatim>\<open>sh\<close>: every dimension divided by 4.\<close>

definition affine_sh :: "Shape \<Rightarrow> Shape" where
  "affine_sh s = map (\<lambda>d. cdiv d 4) s"

text \<open>The context of the call as a hash, before the ordinal of a variant is combined in.\<close>

definition affine_hash :: "Hashing \<Rightarrow> Shape \<Rightarrow> Shape \<Rightarrow> Shape \<Rightarrow> bool \<Rightarrow> bool \<Rightarrow> nat" where
  "affine_hash H sa sb sbias transA transB =
     (let hash0 = shapeHash H (affine_sh sa);
          hash1 = hash_combine H hash0 (HashSize (shapeHash H (affine_sh sb)));
          hash2 = hash_combine H hash1 (HashSize (shapeHash H (affine_sh sbias)));
          hash3 = hash_combine H hash2 (HashBool transA)
      in hash_combine H hash3 (HashBool transB))"





subsection \<open>The list forms\<close>

text \<open>
  The macro \<^verbatim>\<open>ABORT\<close> is not among the sources. By the specification the abort of an
  unimplemented multi-input variant is fatal and ends the process, without a recovery
  path, and its kind is ConfigurationError; the error carries the message of the call,
  \<^verbatim>\<open>ABORT("Not implemented")\<close>. \<open>tanh\<close> is the one list form that constructs a node.
\<close>

definition plus_list :: "ExpressionGraph \<Rightarrow> Expr list \<Rightarrow> Expr Result" where
  "plus_list g xs = Inl (ConfigurationError ''Not implemented'')"

definition swish_list :: "ExpressionGraph \<Rightarrow> Expr list \<Rightarrow> Expr Result" where
  "swish_list g xs = Inl (ConfigurationError ''Not implemented'')"

definition tanh_list :: "ExpressionGraph \<Rightarrow> Expr list \<Rightarrow> Expr Result" where
  "tanh_list g xs = Expression g (TanhNodeOp xs)"

definition sigmoid_list :: "ExpressionGraph \<Rightarrow> Expr list \<Rightarrow> Expr Result" where
  "sigmoid_list g xs = Inl (ConfigurationError ''Not implemented'')"

definition relu_list :: "ExpressionGraph \<Rightarrow> Expr list \<Rightarrow> Expr Result" where
  "relu_list g xs = Inl (ConfigurationError ''Not implemented'')"

definition leakyrelu_list :: "ExpressionGraph \<Rightarrow> Expr list \<Rightarrow> Expr Result" where
  "leakyrelu_list g xs = Inl (ConfigurationError ''Not implemented'')"

definition prelu_list :: "ExpressionGraph \<Rightarrow> Expr list \<Rightarrow> real \<Rightarrow> Expr Result" where
  "prelu_list g xs alpha = Inl (ConfigurationError ''Not implemented'')"

section \<open>The values of the elementwise and reducing nodes\<close>

text \<open>
  The kernels of the nodes are not among the sources; what a node computes follows the
  specification. A tensor gives a value to every index; the values are reals, the
  rounding of floating point is left out.
\<close>

type_synonym Tensor = "nat list \<Rightarrow> real"

text \<open>
  Modelled from the spec: broadcasting, which no source file holds. Aligned from the
  trailing dimension, an operand of shape \<open>s\<close> is read at index 0 along a dimension of
  size 1 and at the index of the result along the others.
\<close>

definition broadcast_index :: "Shape \<Rightarrow> nat list \<Rightarrow> nat list" where
  "broadcast_index s idx =
     map2 (\<lambda>d i. if d = 1 then 0 else i) s (drop (length idx - length s) idx)"

text \<open>
  Modelled from the spec: the shape of two broadcast operands, which no source file
  holds. Aligned from the trailing dimension, each dimension is the larger of the pair
  (the two are equal, or one of them is 1).
\<close>

definition broadcast_shape :: "Shape \<Rightarrow> Shape \<Rightarrow> Shape" where
  "broadcast_shape sa sb =
     (let n = max (length sa) (length sb)
      in map2 max (replicate (n - length sa) 1 @ sa) (replicate (n - length sb) 1 @ sb))"

text \<open>
  Modelled from the spec: the values of the kernels, which are not among the sources.
  The elementwise nodes combine their operands position by position under broadcasting,
  the scalar nodes add or multiply their scalar at each position, a sum collapses its
  axis to size 1 and adds along it, and the scalar product adds the products of its two
  operands along the axis. The other nodes are given no value here.
\<close>

fun tensorOf :: "NodeOp \<Rightarrow> (Expr \<Rightarrow> Tensor) \<Rightarrow> Tensor option" where
  "tensorOf (NegNodeOp a) V = Some (\<lambda>idx. - V a idx)"
| "tensorOf (ScalarAddNodeOp a c) V = Some (\<lambda>idx. V a idx + c)"
| "tensorOf (ScalarMultNodeOp a c) V = Some (\<lambda>idx. V a idx * c)"
| "tensorOf (PlusNodeOp a b) V =
     Some (\<lambda>idx. V a (broadcast_index (shape a) idx) + V b (broadcast_index (shape b) idx))"
| "tensorOf (MultNodeOp a b) V =
     Some (\<lambda>idx. V a (broadcast_index (shape a) idx) * V b (broadcast_index (shape b) idx))"
| "tensorOf (DivNodeOp a b) V =
     Some (\<lambda>idx. V a (broadcast_index (shape a) idx) / V b (broadcast_index (shape b) idx))"
| "tensorOf (SumNodeOp a ax) V =
     (case Shape_axis (shape a) ax of
        Inl e \<Rightarrow> None
      | Inr k \<Rightarrow> Some (\<lambda>idx. \<Sum>j < nat (shape a ! k). V a (idx[k := j])))"
| "tensorOf (ScalarProductNodeOp a b ax) V =
     (case Shape_axis (broadcast_shape (shape a) (shape b)) ax of
        Inl e \<Rightarrow> None
      | Inr k \<Rightarrow>
          Some (\<lambda>idx. \<Sum>j < nat (broadcast_shape (shape a) (shape b) ! k).
                   V a (broadcast_index (shape a) (idx[k := j]))
                 * V b (broadcast_index (shape b) (idx[k := j]))))"
| "tensorOf n V = None"

text \<open>
  \<open>computes V g e\<close>: the node \<open>e\<close> of \<open>g\<close> is one of the nodes above, and \<open>V\<close> gives it
  the tensor its kernel computes from the tensors \<open>V\<close> gives its operands.
\<close>

definition computes :: "(Expr \<Rightarrow> Tensor) \<Rightarrow> ExpressionGraph \<Rightarrow> Expr \<Rightarrow> bool" where
  "computes V g e = (case nodeOf g e of None \<Rightarrow> False | Some n \<Rightarrow> tensorOf n V = Some (V e))"

text \<open>
  The weighted average in the words of the specification's testable property:
  \<open>sum(v * w, axis) / sum(w, axis)\<close>, built with the operators above.
\<close>

definition sum_of_products_over_sum :: "ExpressionGraph \<Rightarrow> Expr \<Rightarrow> Expr \<Rightarrow> int \<Rightarrow> Expr Result" where
  "sum_of_products_over_sum g v w ax =
     bnd (operator_mult g v w) (\<lambda>(vw, g1).
     bnd (sum_Expr g1 vw ax) (\<lambda>(n, g2).
     bnd (sum_Expr g2 w ax) (\<lambda>(d, g3).
     operator_div g3 n d)))"

section \<open>A graph to run the operators on\<close>

text \<open>
  One choice of the constructors' shape computation: elementwise nodes keep the shape of
  their first operand, a transposition permutes it, a reshape checks the element count, a
  reduction collapses its axis to 1, and the products give a matrix. The operands are
  those of the fingerprint example of the specification.
\<close>

fun exampleShape :: "NodeOp \<Rightarrow> Error + Shape" where
  "exampleShape (TransposeNodeOp a axes) = Inr (map (\<lambda>k. shape a ! nat k) axes)"
| "exampleShape (ReshapeNodeOp a s) =
     (if Shape_elements s = Shape_elements (shape a) then Inr s else Inl ShapeMismatch)"
| "exampleShape (SumNodeOp a ax) = bnd (Shape_axis (shape a) ax) (\<lambda>k. Inr ((shape a)[k := 1]))"
| "exampleShape (ScalarProductNodeOp a b ax) =
     bnd (Shape_axis (shape a) ax) (\<lambda>k. Inr ((shape a)[k := 1]))"
| "exampleShape (DotNodeOp a b transA transB scale) =
     Inr [if transA then last (shape a) else hd (shape a),
          if transB then hd (shape b) else last (shape b)]"
| "exampleShape (AffineNodeOp xs transA transB scale) =
     (case xs of
        a # b # rest \<Rightarrow> Inr [if transA then last (shape a) else hd (shape a),
                            if transB then hd (shape b) else last (shape b)]
      | _ \<Rightarrow> Inl ShapeMismatch)"
| "exampleShape (Int16DotNodeOp a b scale) = Inr [hd (shape a), hd (shape b)]"
| "exampleShape (Int16AffineNodeOp a b bias scale) = Inr [hd (shape a), hd (shape b)]"
| "exampleShape (OnesNode s) = Inr s"
| "exampleShape (TanhNodeOp xs) = (case xs of a # rest \<Rightarrow> Inr (shape a) | [] \<Rightarrow> Inl ShapeMismatch)"
| "exampleShape (SigmoidNodeOp a) = Inr (shape a)"
| "exampleShape (ReLUNodeOp a) = Inr (shape a)"
| "exampleShape (PReLUNodeOp alpha a) = Inr (shape a)"
| "exampleShape (SwishNodeOp a) = Inr (shape a)"
| "exampleShape (ClipNodeOp a c) = Inr (shape a)"
| "exampleShape (NegNodeOp a) = Inr (shape a)"
| "exampleShape (SoftmaxNodeOp a) = Inr (shape a)"
| "exampleShape (PlusNodeOp a b) = Inr (shape a)"
| "exampleShape (MultNodeOp a b) = Inr (shape a)"
| "exampleShape (DivNodeOp a b) = Inr (shape a)"
| "exampleShape (ScalarAddNodeOp a c) = Inr (shape a)"
| "exampleShape (ScalarMultNodeOp a c) = Inr (shape a)"
| "exampleShape (Int16QuantizeNodeOp a c) = Inr (shape a)"

definition exA :: Expr where "exA = \<lparr>ident = 0, shape = [32, 64]\<rparr>"
definition exB :: Expr where "exB = \<lparr>ident = 1, shape = [64, 16]\<rparr>"
definition exMask :: Expr where "exMask = \<lparr>ident = 3, shape = [32, 64]\<rparr>"
definition exA' :: Expr where "exA' = \<lparr>ident = 4, shape = [35, 64]\<rparr>"

definition exampleGraph :: "bool \<Rightarrow> DeviceType \<Rightarrow> real \<Rightarrow> ExpressionGraph" where
  "exampleGraph optimize device clipValue =
     \<lparr>nodes = [OnesNode [32, 64], OnesNode [64, 16], OnesNode [1, 16], OnesNode [32, 64],
               OnesNode [35, 64]],
      recorded = [],
      isOptimized = optimize,
      deviceType = device,
      getClip = clipValue,
      opShape = exampleShape\<rparr>"

text \<open>
  Tensors for the operands: \<open>exA\<close> holds 1 everywhere, and the mask \<open>exMask\<close> holds 0 at
  index \<open>[0, 0]\<close> and 1 elsewhere. \<open>maskedValues\<close> gives the five nodes that
  \<open>softmax_mask\<close> adds after them the tensors of their kernels.
\<close>

definition exMaskTensor :: Tensor where
  "exMaskTensor idx = (if idx = [0, 0] then 0 else 1)"

definition maskedValues :: "Expr \<Rightarrow> Tensor" where
  "maskedValues e =
     (if ident e = 0 then (\<lambda>idx. 1)
      else if ident e = 3 then exMaskTensor
      else if ident e = 5 then (\<lambda>idx. - exMaskTensor idx)
      else if ident e = 6 then (\<lambda>idx. - exMaskTensor idx + 1)
      else if ident e = 7 then (\<lambda>idx. (- exMaskTensor idx + 1) * (- 99999999))
      else if ident e = 8 then
        (\<lambda>idx. 1 + (- exMaskTensor (broadcast_index [32, 64] idx) + 1) * (- 99999999))
      else (\<lambda>idx. 0))"

text \<open>
  Tensors for the weighted average of \<open>exA\<close> with the weights \<open>exMask\<close> along the
  last axis: the values are 3 everywhere and the weights 2 everywhere. \<open>averagedValues\<close>
  gives the nodes that \<open>weighted_average\<close> adds the tensors of their kernels, and
  \<open>summedValues\<close> those that \<open>sum_of_products_over_sum\<close> adds.
\<close>

definition averagedValues :: "Expr \<Rightarrow> Tensor" where
  "averagedValues e =
     (if ident e = 0 then (\<lambda>idx. 3)
      else if ident e = 3 then (\<lambda>idx. 2)
      else if ident e = 5 then (\<lambda>idx. 384)
      else if ident e = 6 then (\<lambda>idx. 128)
      else if ident e = 7 then (\<lambda>idx. 3)
      else (\<lambda>idx. 0))"

definition summedValues :: "Expr \<Rightarrow> Tensor" where
  "summedValues e =
     (if ident e = 0 then (\<lambda>idx. 3)
      else if ident e = 3 then (\<lambda>idx. 2)
      else if ident e = 5 then (\<lambda>idx. 6)
      else if ident e = 6 then (\<lambda>idx. 384)
      else if ident e = 7 then (\<lambda>idx. 128)
      else if ident e = 8 then (\<lambda>idx. 3)
      else (\<lambda>idx. 0))"



section \<open>Properties\<close>

lemma bnd_Inl [simp]: "bnd (Inl e) f = Inl e"
  by (simp add: bnd_def)

lemma bnd_Inr [simp]: "bnd (Inr x) f = f x"
  by (simp add: bnd_def)

subsection \<open>Axes and node construction\<close>

lemma Shape_axis_Inr: "Shape_axis s ax = Inr k \<Longrightarrow> k < length s"
  by (auto simp: Shape_axis_def Let_def split: if_splits)

lemma Shape_axis_value:
  "Shape_axis s ax = Inr k \<Longrightarrow> int k = (if ax < 0 then int (length s) + ax else ax)"
  by (auto simp: Shape_axis_def Let_def split: if_splits)

lemma Shape_axis_neg:
  "1 \<le> i \<Longrightarrow> i \<le> length s \<Longrightarrow> Shape_axis s (- int i) = Inr (length s - i)"
  by (auto simp: Shape_axis_def Let_def nat_diff_distrib')

lemma Expression_Inr:
  "Expression g n = Inr (r, g') \<Longrightarrow>
     g' = g\<lparr>nodes := nodes g @ [n]\<rparr> \<and> ident r = length (nodes g) \<and> opShape g n = Inr (shape r)"
  by (auto simp: Expression_def split: sum.splits)

lemma Expression_nodes: "Expression g n = Inr (r, g') \<Longrightarrow> nodes g' = nodes g @ [n]"
  by (auto dest: Expression_Inr)

lemma swapped_list:
  assumes "i < n" "j < n"
  shows "((map int [0..<n])[i := (map int [0..<n]) ! j])[j := (map int [0..<n]) ! i]
           = swap_permutation n i j"
  using assms by (auto simp: swap_permutation_def nth_list_update intro!: nth_equalityI)

lemma swap_permutation_mset:
  assumes "i < n" "j < n"
  shows "mset (swap_permutation n i j) = mset (map int [0..<n])"
proof -
  have "mset (((map int [0..<n])[i := (map int [0..<n]) ! j])[j := (map int [0..<n]) ! i])
          = mset (map int [0..<n])"
    using assms mset_swap[of j "map int [0..<n]" i] by simp
  then show ?thesis using swapped_list[OF assms] by simp
qed

lemma swapAxes_resolved:
  assumes "Shape_axis (shape x) axis1 = Inr i" "Shape_axis (shape x) axis2 = Inr j"
  shows "swapAxes g x axis1 axis2 =
     (if i = j then Inr (x, g)
      else transpose_axes g x (swap_permutation (length (shape x)) i j))"
proof -
  have "i < length (shape x)" "j < length (shape x)"
    using assms by (auto dest: Shape_axis_Inr)
  then show ?thesis
    using assms swapped_list[of i "length (shape x)" j] by (simp add: swapAxes_def Let_def)
qed

lemma swapAxes_nodes:
  assumes "swapAxes g x axis1 axis2 = Inr (r, g')"
  shows "(r = x \<and> g' = g) \<or> (\<exists>axes. g' = g\<lparr>nodes := nodes g @ [TransposeNodeOp x axes]\<rparr>)"
  using assms
  by (auto simp: swapAxes_def bnd_def Let_def transpose_axes_def
           split: sum.splits if_splits dest!: Expression_Inr)

subsection \<open>The loop of \<open>atleast_nd\<close>\<close>

lemma atleast_nd_loop_result:
  "length sa < length ns \<Longrightarrow> 1 \<le> i \<Longrightarrow> i \<le> Suc (length sa) \<Longrightarrow>
   atleast_nd_loop sa i ns =
     Inr (take (length ns - length sa) ns @ take (Suc (length sa) - i) sa
            @ drop (Suc (length ns) - i) ns)"
proof (induction sa i ns rule: atleast_nd_loop.induct)
  case (1 sa i ns)
  show ?case
  proof (cases "i \<le> length sa")
    case False
    with 1(3,4) have i: "i = Suc (length sa)" by simp
    have "atleast_nd_loop sa i ns = Inr ns" using i by simp
    moreover have "take (length ns - length sa) ns @ take (Suc (length sa) - i) sa
            @ drop (Suc (length ns) - i) ns = ns" using i by simp
    ultimately show ?thesis by simp
  next
    case True
    let ?r = "length sa" and ?n = "length ns"
    let ?ns' = "ns[?n - i := sa ! (?r - i)]"
    have get: "Shape_get sa (- int i) = Inr (sa ! (?r - i))"
      using True 1(3) by (simp add: Shape_get_def Shape_axis_neg)
    have set: "Shape_set ns (- int i) (sa ! (?r - i)) = Inr ?ns'"
      using True 1(2,3) by (simp add: Shape_set_def Shape_axis_neg)
    have step: "atleast_nd_loop sa i ns = atleast_nd_loop sa (Suc i) ?ns'"
      using True get set by (subst atleast_nd_loop.simps) simp
    have IH: "atleast_nd_loop sa (Suc i) ?ns' =
       Inr (take (length ?ns' - ?r) ?ns' @ take (Suc ?r - Suc i) sa
              @ drop (Suc (length ?ns') - Suc i) ?ns')"
      using 1(1)[OF True, of ?ns'] 1(2) True by simp
    have a: "take (length ?ns' - ?r) ?ns' = take (?n - ?r) ns"
      using True 1(2,3) by simp
    have b: "drop (Suc (length ?ns') - Suc i) ?ns' = sa ! (?r - i) # drop (Suc ?n - i) ns"
    proof -
      have "?n - i < length ?ns'" using True 1(2,3) by simp
      then have "drop (?n - i) ?ns' = ?ns' ! (?n - i) # drop (Suc (?n - i)) ?ns'"
        by (rule Cons_nth_drop_Suc[symmetric])
      moreover have "Suc (?n - i) = Suc ?n - i" using True 1(2) by simp
      ultimately show ?thesis using True 1(2,3) by simp
    qed
    have c: "take (Suc ?r - Suc i) sa @ [sa ! (?r - i)] = take (Suc ?r - i) sa"
    proof -
      have "?r - i < length sa" using True 1(3) by simp
      then have "take (Suc (?r - i)) sa = take (?r - i) sa @ [sa ! (?r - i)]"
        by (rule take_Suc_conv_app_nth)
      moreover have "Suc (?r - i) = Suc ?r - i" using True by simp
      ultimately show ?thesis by simp
    qed
    show ?thesis using step IH a b c by simp
  qed
qed

lemma atleast_nd_loop_pads:
  assumes "length sa < n"
  shows "atleast_nd_loop sa 1 (Shape_resize n) = Inr (left_padded sa n)"
  using atleast_nd_loop_result[of sa "Shape_resize n" 1] assms
  by (simp add: Shape_resize_def left_padded_def)

lemma swap_permutation_nth:
  "k < n \<Longrightarrow> swap_permutation n i j ! k = int (if k = i then j else if k = j then i else k)"
  by (simp add: swap_permutation_def)

lemma softmax_nodes:
  assumes "softmax g a axis = Inr (r, g')"
  shows "\<exists>new. nodes g' = nodes g @ new \<and> length (filter isSoftmaxNodeOp new) = 1
           \<and> list_all (\<lambda>n. isSoftmaxNodeOp n \<or> isTransposeNodeOp n) new"
proof (cases "axis = - 1")
  case True
  with assms have "Expression g (SoftmaxNodeOp a) = Inr (r, g')" by simp
  then have "nodes g' = nodes g @ [SoftmaxNodeOp a]" by (auto dest: Expression_Inr)
  then show ?thesis by simp
next
  case False
  with assms obtain x g1 y g2 where
    s1: "swapAxes g a axis (- 1) = Inr (x, g1)" and
    s2: "Expression g1 (SoftmaxNodeOp x) = Inr (y, g2)" and
    s3: "swapAxes g2 y axis (- 1) = Inr (r, g')"
    by (auto simp: bnd_def split: sum.splits)
  from swapAxes_nodes[OF s1] obtain n1 where n1: "nodes g1 = nodes g @ n1" "list_all isTransposeNodeOp n1"
    by auto
  from s2 have n2: "nodes g2 = nodes g1 @ [SoftmaxNodeOp x]" by (auto dest: Expression_Inr)
  from swapAxes_nodes[OF s3] obtain n3 where n3: "nodes g' = nodes g2 @ n3" "list_all isTransposeNodeOp n3"
    by auto
  have nf: "filter isSoftmaxNodeOp n = []" if "list_all isTransposeNodeOp n" for n
    using that by (induction n) (auto elim: isTransposeNodeOp.elims)
  have al: "list_all (\<lambda>n. isSoftmaxNodeOp n \<or> isTransposeNodeOp n) n" if "list_all isTransposeNodeOp n" for n
    using that by (simp add: list_all_iff)
  have "nodes g' = nodes g @ (n1 @ [SoftmaxNodeOp x] @ n3)" using n1 n2 n3 by simp
  moreover have "length (filter isSoftmaxNodeOp (n1 @ [SoftmaxNodeOp x] @ n3)) = 1"
    using nf[OF n1(2)] nf[OF n3(2)] by simp
  moreover have "list_all (\<lambda>n. isSoftmaxNodeOp n \<or> isTransposeNodeOp n) (n1 @ [SoftmaxNodeOp x] @ n3)"
    using al[OF n1(2)] al[OF n3(2)] by simp
  ultimately show ?thesis by blast
qed


subsection \<open>Looking nodes up\<close>

lemma transpose_last_axes:
  "transpose_last g a = Expression g (TransposeNodeOp a (last_two_swapped (length (shape a))))"
proof -
  have "(if n > 1 then ((map int [0..<n])[n - 1 := int n - 2])[n - 2 := int n - 1] else map int [0..<n])
          = last_two_swapped n" for n
    by (auto simp: last_two_swapped_def nth_list_update intro!: nth_equalityI)
  then show ?thesis by (simp add: transpose_last_def Let_def)
qed

lemma nodeOf_Expression:
  assumes "Expression g n = Inr (r, g')"
  shows "nodeOf g' r = Some n"
    and "nodeOf g e = Some m \<Longrightarrow> nodeOf g' e = Some m"
    and "isOptimized g' = isOptimized g" "deviceType g' = deviceType g" "getClip g' = getClip g"
        "opShape g' = opShape g"
  using Expression_Inr[OF assms] by (auto simp: nodeOf_def nth_append split: if_splits)

lemma clip_cases:
  assumes "clip g a c = Inr (ac, g')"
  shows "(if c = 0 then ac = a \<and> g' = g else nodeOf g' ac = Some (ClipNodeOp a c))"
    and "nodeOf g e = Some m \<Longrightarrow> nodeOf g' e = Some m"
  using assms by (auto simp: clip_def split: if_splits dest: nodeOf_Expression)

lemma nodeOf_append:
  "nodeOf g e = Some m \<Longrightarrow> nodes g' = nodes g @ new \<Longrightarrow> nodeOf g' e = Some m"
  by (auto simp: nodeOf_def nth_append split: if_splits)

lemma Expression_opShape:
  "Expression g n = Inr (r, g') \<Longrightarrow> opShape g' = opShape g \<and> opShape g n = Inr (shape r)"
  by (auto dest: Expression_Inr)

lemma computes_node:
  "computes V g e \<Longrightarrow> nodeOf g e = Some n \<Longrightarrow> tensorOf n V = Some (V e)"
  by (simp add: computes_def)

subsection \<open>The arguments of a call\<close>

lemma arguments_cases:
  assumes "arguments order g f1 f2 = Inr ((x, y), g')"
  obtains (left) g1 where "order = LeftToRight" "f1 g = Inr (x, g1)" "f2 g1 = Inr (y, g')"
        | (right) g1 where "order = RightToLeft" "f2 g = Inr (y, g1)" "f1 g1 = Inr (x, g')"
  using assms by (cases order) (auto simp: arguments_def bnd_def split: sum.splits)

lemma arguments_live:
  assumes "\<And>g0. opShape g0 = opShape g \<Longrightarrow> \<exists>x g1. f1 g0 = Inr (x, g1) \<and> opShape g1 = opShape g"
      and "\<And>g0. opShape g0 = opShape g \<Longrightarrow> \<exists>y g1. f2 g0 = Inr (y, g1) \<and> opShape g1 = opShape g"
  shows "\<exists>x y g'. arguments order g f1 f2 = Inr ((x, y), g') \<and> opShape g' = opShape g"
proof (cases order)
  case LeftToRight
  from assms(1)[of g] obtain x g1 where 1: "f1 g = Inr (x, g1)" "opShape g1 = opShape g" by auto
  from assms(2)[OF 1(2)] obtain y g2 where 2: "f2 g1 = Inr (y, g2)" "opShape g2 = opShape g" by auto
  show ?thesis using LeftToRight 1 2 by (simp add: arguments_def)
next
  case RightToLeft
  from assms(2)[of g] obtain y g1 where 1: "f2 g = Inr (y, g1)" "opShape g1 = opShape g" by auto
  from assms(1)[OF 1(2)] obtain x g2 where 2: "f1 g1 = Inr (x, g2)" "opShape g2 = opShape g" by auto
  show ?thesis using RightToLeft 1 2 by (simp add: arguments_def)
qed

lemma Expression_live:
  "opShape g n = Inr sh \<Longrightarrow>
     Expression g n = Inr (\<lparr>ident = length (nodes g), shape = sh\<rparr>, g\<lparr>nodes := nodes g @ [n]\<rparr>)"
  by (simp add: Expression_def)

lemma Expression_live_ex:
  "\<exists>sh. opShape g n = Inr sh \<Longrightarrow> \<exists>r g'. Expression g n = Inr (r, g') \<and> opShape g' = opShape g"
  by (auto simp: Expression_def)

lemma quantized_operand:
  assumes "bnd (if tr then transpose_last g a else Inr (a, g)) (\<lambda>(a', g1). int16_quantize g1 a' c)
             = Inr (qa, g')"
  shows "\<exists>a'. nodeOf g' qa = Some (Int16QuantizeNodeOp a' c)
            \<and> (if tr then nodeOf g' a' = Some (TransposeNodeOp a (last_two_swapped (length (shape a))))
                else a' = a)"
    and "nodeOf g e = Some m \<Longrightarrow> nodeOf g' e = Some m"
proof -
  from assms obtain a' g1 where
    s1: "(if tr then transpose_last g a else Inr (a, g)) = Inr (a', g1)" and
    s2: "int16_quantize g1 a' c = Inr (qa, g')"
    by (auto simp: bnd_def split: sum.splits)
  have n2: "nodeOf g' qa = Some (Int16QuantizeNodeOp a' c)"
    using s2 by (simp add: int16_quantize_def nodeOf_Expression)
  have k2: "nodeOf g1 e = Some m \<Longrightarrow> nodeOf g' e = Some m" for e m
    using s2 by (simp add: int16_quantize_def nodeOf_Expression)
  have n1: "if tr then nodeOf g1 a' = Some (TransposeNodeOp a (last_two_swapped (length (shape a))))
            else a' = a"
    using s1 by (auto simp: transpose_last_axes nodeOf_Expression split: if_splits)
  have k1: "nodeOf g e = Some m \<Longrightarrow> nodeOf g1 e = Some m" for e m
    using s1 by (auto simp: transpose_last_axes nodeOf_Expression split: if_splits)
  show "\<exists>a'. nodeOf g' qa = Some (Int16QuantizeNodeOp a' c)
            \<and> (if tr then nodeOf g' a' = Some (TransposeNodeOp a (last_two_swapped (length (shape a))))
                else a' = a)"
    using n2 n1 k2 by (auto split: if_splits)
  show "nodeOf g e = Some m \<Longrightarrow> nodeOf g' e = Some m"
    using k1 k2 by blast
qed

lemma quantized_operand_live:
  assumes "\<forall>x axes. \<exists>sh. opShape g (TransposeNodeOp x axes) = Inr sh"
      and "\<forall>x. \<exists>sh. opShape g (Int16QuantizeNodeOp x c) = Inr sh"
  shows "\<exists>qa g'. bnd (if tr then transpose_last g a else Inr (a, g))
                   (\<lambda>(a', g1). int16_quantize g1 a' c) = Inr (qa, g')
              \<and> opShape g' = opShape g"
proof -
  obtain a' g1 where s1: "(if tr then transpose_last g a else Inr (a, g)) = Inr (a', g1)"
      and o1: "opShape g1 = opShape g"
    using Expression_live_ex[OF assms(1)[rule_format], of a "last_two_swapped (length (shape a))"]
    by (cases tr) (auto simp: transpose_last_axes)
  obtain qa g2 where s2: "int16_quantize g1 a' c = Inr (qa, g2)" and o2: "opShape g2 = opShape g1"
    using Expression_live_ex[of g1 "Int16QuantizeNodeOp a' c"] assms(2) o1
    by (auto simp: int16_quantize_def)
  show ?thesis using s1 s2 o1 o2 by simp
qed

lemma quantized_operand_swapped:
  assumes "bnd (if tr then Inr (b, g) else transpose_last g b) (\<lambda>(b', g1). int16_quantize g1 b' c)
             = Inr (qb, g')"
  shows "\<exists>b'. nodeOf g' qb = Some (Int16QuantizeNodeOp b' c)
            \<and> (if tr then b' = b
                else nodeOf g' b' = Some (TransposeNodeOp b (last_two_swapped (length (shape b)))))"
    and "nodeOf g e = Some m \<Longrightarrow> nodeOf g' e = Some m"
proof -
  have f: "bnd (if \<not> tr then transpose_last g b else Inr (b, g)) (\<lambda>(b', g1). int16_quantize g1 b' c)
             = Inr (qb, g')"
    using assms by (cases tr) simp_all
  show "\<exists>b'. nodeOf g' qb = Some (Int16QuantizeNodeOp b' c)
            \<and> (if tr then b' = b
                else nodeOf g' b' = Some (TransposeNodeOp b (last_two_swapped (length (shape b)))))"
    using quantized_operand(1)[OF f] by (cases tr) simp_all
  show "nodeOf g e = Some m \<Longrightarrow> nodeOf g' e = Some m"
    using quantized_operand(2)[OF f] .
qed

lemma quantized_operand_swapped_live:
  assumes "\<forall>x axes. \<exists>sh. opShape g (TransposeNodeOp x axes) = Inr sh"
      and "\<forall>x. \<exists>sh. opShape g (Int16QuantizeNodeOp x c) = Inr sh"
  shows "\<exists>qb g'. bnd (if tr then Inr (b, g) else transpose_last g b)
                   (\<lambda>(b', g1). int16_quantize g1 b' c) = Inr (qb, g')
              \<and> opShape g' = opShape g"
  using quantized_operand_live[OF assms, of "\<not> tr" b] by (cases tr) simp_all

subsection \<open>The two routes of \<open>dot\<close>\<close>

lemma dot_int16_equation:
  assumes "isOptimized g \<and> deviceType g = cpu"
  shows "dot order g a b transA transB scale
       = bnd (arguments order g
                (\<lambda>g0. bnd (if transA
                           then Expression g0 (TransposeNodeOp a (last_two_swapped (length (shape a))))
                           else Inr (a, g0)) (\<lambda>(a', g1).
                      Expression g1 (Int16QuantizeNodeOp a' (getClip g))))
                (\<lambda>g0. bnd (if transB
                           then Inr (b, g0)
                           else Expression g0 (TransposeNodeOp b (last_two_swapped (length (shape b)))))
                        (\<lambda>(b', g1).
                      Expression g1 (Int16QuantizeNodeOp b' (getClip g)))))
           (\<lambda>((qa, qb), g1). Expression g1 (Int16DotNodeOp qa qb scale))"
  using assms
  by (simp add: dot_def Let_def transpose_last_axes int16_quantize_def int16_dot_def cong: if_cong)

lemma dot_general_equation:
  assumes "\<not> (isOptimized g \<and> deviceType g = cpu)"
  shows "getClip g = 0 \<Longrightarrow>
           dot order g a b transA transB scale = Expression g (DotNodeOp a b transA transB scale)"
    and "getClip g \<noteq> 0 \<Longrightarrow>
           dot order g a b transA transB scale
             = bnd (arguments order g (\<lambda>g0. Expression g0 (ClipNodeOp a (getClip g)))
                                      (\<lambda>g0. Expression g0 (ClipNodeOp b (getClip g))))
                 (\<lambda>((ac, bc), g1). Expression g1 (DotNodeOp ac bc transA transB scale))"
proof -
  show "getClip g = 0 \<Longrightarrow>
           dot order g a b transA transB scale = Expression g (DotNodeOp a b transA transB scale)"
    using assms by (cases order) (auto simp: dot_def Let_def clip_def arguments_def)
  show "getClip g \<noteq> 0 \<Longrightarrow>
           dot order g a b transA transB scale
             = bnd (arguments order g (\<lambda>g0. Expression g0 (ClipNodeOp a (getClip g)))
                                      (\<lambda>g0. Expression g0 (ClipNodeOp b (getClip g))))
                 (\<lambda>((ac, bc), g1). Expression g1 (DotNodeOp ac bc transA transB scale))"
    using assms by (auto simp: dot_def Let_def clip_def)
qed

lemma dot_result:
  assumes "dot order g a b transA transB scale = Inr (r, g')"
  shows "if isOptimized g \<and> deviceType g = cpu
         then (\<exists>qa qb a' b'.
                nodeOf g' r = Some (Int16DotNodeOp qa qb scale)
              \<and> nodeOf g' qa = Some (Int16QuantizeNodeOp a' (getClip g))
              \<and> nodeOf g' qb = Some (Int16QuantizeNodeOp b' (getClip g))
              \<and> (if transA
                  then nodeOf g' a' = Some (TransposeNodeOp a (last_two_swapped (length (shape a))))
                  else a' = a)
              \<and> (if transB
                  then b' = b
                  else nodeOf g' b' = Some (TransposeNodeOp b (last_two_swapped (length (shape b))))))
         else (\<exists>ac bc.
                nodeOf g' r = Some (DotNodeOp ac bc transA transB scale)
              \<and> (if getClip g = 0
                  then ac = a \<and> bc = b \<and> nodes g' = nodes g @ [DotNodeOp a b transA transB scale]
                  else nodeOf g' ac = Some (ClipNodeOp a (getClip g))
                     \<and> nodeOf g' bc = Some (ClipNodeOp b (getClip g))))"
proof (cases "isOptimized g \<and> deviceType g = cpu")
  case True
  let ?fa = "\<lambda>g0. bnd (if transA then transpose_last g0 a else Inr (a, g0)) (\<lambda>(a', g1).
                          int16_quantize g1 a' (getClip g))"
  let ?fb = "\<lambda>g0. bnd (if transB then Inr (b, g0) else transpose_last g0 b) (\<lambda>(b', g1).
                          int16_quantize g1 b' (getClip g))"
  from assms True obtain qa qb g4 where
    s1: "arguments order g ?fa ?fb = Inr ((qa, qb), g4)" and
    s5: "int16_dot g4 qa qb scale = Inr (r, g')"
    by (auto simp: dot_def Let_def bnd_def split: sum.splits)
  have n5: "nodeOf g' r = Some (Int16DotNodeOp qa qb scale)"
    using s5 by (simp add: int16_dot_def nodeOf_Expression)
  have k5: "nodeOf g4 e = Some m \<Longrightarrow> nodeOf g' e = Some m" for e m
    using s5 by (simp add: int16_dot_def nodeOf_Expression)
  have "\<exists>a' b'. nodeOf g4 qa = Some (Int16QuantizeNodeOp a' (getClip g))
              \<and> nodeOf g4 qb = Some (Int16QuantizeNodeOp b' (getClip g))
              \<and> (if transA
                  then nodeOf g4 a' = Some (TransposeNodeOp a (last_two_swapped (length (shape a))))
                  else a' = a)
              \<and> (if transB then b' = b
                  else nodeOf g4 b' = Some (TransposeNodeOp b (last_two_swapped (length (shape b)))))"
  proof (rule arguments_cases[OF s1])
    fix g1 assume fa: "?fa g = Inr (qa, g1)" and fb: "?fb g1 = Inr (qb, g4)"
    from quantized_operand(1)[OF fa] obtain a' where
      a: "nodeOf g1 qa = Some (Int16QuantizeNodeOp a' (getClip g))"
         "if transA then nodeOf g1 a' = Some (TransposeNodeOp a (last_two_swapped (length (shape a))))
          else a' = a" by blast
    from quantized_operand_swapped(1)[OF fb] obtain b' where
      b: "nodeOf g4 qb = Some (Int16QuantizeNodeOp b' (getClip g))"
         "if transB then b' = b
          else nodeOf g4 b' = Some (TransposeNodeOp b (last_two_swapped (length (shape b))))" by blast
    note k = quantized_operand_swapped(2)[OF fb]
    have "nodeOf g4 qa = Some (Int16QuantizeNodeOp a' (getClip g))" using a(1) k by blast
    moreover have "if transA then nodeOf g4 a' = Some (TransposeNodeOp a (last_two_swapped (length (shape a))))
          else a' = a" using a(2) k by (auto split: if_splits)
    ultimately show ?thesis using b by blast
  next
    fix g1 assume fb: "?fb g = Inr (qb, g1)" and fa: "?fa g1 = Inr (qa, g4)"
    from quantized_operand(1)[OF fa] obtain a' where
      a: "nodeOf g4 qa = Some (Int16QuantizeNodeOp a' (getClip g))"
         "if transA then nodeOf g4 a' = Some (TransposeNodeOp a (last_two_swapped (length (shape a))))
          else a' = a" by blast
    from quantized_operand_swapped(1)[OF fb] obtain b' where
      b: "nodeOf g1 qb = Some (Int16QuantizeNodeOp b' (getClip g))"
         "if transB then b' = b
          else nodeOf g1 b' = Some (TransposeNodeOp b (last_two_swapped (length (shape b))))" by blast
    note k = quantized_operand(2)[OF fa]
    have "nodeOf g4 qb = Some (Int16QuantizeNodeOp b' (getClip g))" using b(1) k by blast
    moreover have "if transB then b' = b
          else nodeOf g4 b' = Some (TransposeNodeOp b (last_two_swapped (length (shape b))))" using b(2) k by (auto split: if_splits)
    ultimately show ?thesis using a by blast
  qed
  then obtain a' b' where
    q: "nodeOf g4 qa = Some (Int16QuantizeNodeOp a' (getClip g))"
       "nodeOf g4 qb = Some (Int16QuantizeNodeOp b' (getClip g))"
       "if transA
        then nodeOf g4 a' = Some (TransposeNodeOp a (last_two_swapped (length (shape a))))
        else a' = a"
       "if transB then b' = b
        else nodeOf g4 b' = Some (TransposeNodeOp b (last_two_swapped (length (shape b))))" by blast
  have "nodeOf g' qa = Some (Int16QuantizeNodeOp a' (getClip g))" using q(1) k5 by blast
  moreover have "nodeOf g' qb = Some (Int16QuantizeNodeOp b' (getClip g))" using q(2) k5 by blast
  moreover have "if transA
        then nodeOf g' a' = Some (TransposeNodeOp a (last_two_swapped (length (shape a))))
        else a' = a" using q(3) k5 by (auto split: if_splits)
  moreover have "if transB then b' = b
        else nodeOf g' b' = Some (TransposeNodeOp b (last_two_swapped (length (shape b))))"
    using q(4) k5 by (auto split: if_splits)
  ultimately show ?thesis using True n5 by auto
next
  case False
  from assms False obtain ac bc g2 where
    s1: "arguments order g (\<lambda>g0. clip g0 a (getClip g)) (\<lambda>g0. clip g0 b (getClip g))
           = Inr ((ac, bc), g2)" and
    s3: "Expression g2 (DotNodeOp ac bc transA transB scale) = Inr (r, g')"
    by (auto simp: dot_def Let_def bnd_def split: sum.splits)
  have n3: "nodeOf g' r = Some (DotNodeOp ac bc transA transB scale)"
    using s3 by (simp add: nodeOf_Expression)
  show ?thesis
  proof (cases "getClip g = 0")
    case True
    from s1 True have "ac = a" "bc = b" "g2 = g"
      by (cases order; simp add: arguments_def clip_def)+
    then show ?thesis using False True n3 Expression_Inr[OF s3] by auto
  next
    case nz: False
    have "nodeOf g2 ac = Some (ClipNodeOp a (getClip g)) \<and> nodeOf g2 bc = Some (ClipNodeOp b (getClip g))"
    proof (rule arguments_cases[OF s1])
      fix g1 assume 1: "clip g a (getClip g) = Inr (ac, g1)" and 2: "clip g1 b (getClip g) = Inr (bc, g2)"
      show ?thesis using clip_cases(1)[OF 1] clip_cases[OF 2] nz by auto
    next
      fix g1 assume 1: "clip g b (getClip g) = Inr (bc, g1)" and 2: "clip g1 a (getClip g) = Inr (ac, g2)"
      show ?thesis using clip_cases(1)[OF 1] clip_cases[OF 2] nz by auto
    qed
    then have "nodeOf g' ac = Some (ClipNodeOp a (getClip g))"
        "nodeOf g' bc = Some (ClipNodeOp b (getClip g))"
      using nodeOf_Expression(2)[OF s3] by blast+
    then show ?thesis using False nz n3 by auto
  qed
qed

lemma clip_live:
  assumes "c = 0 \<or> (\<forall>x. \<exists>sh. opShape g (ClipNodeOp x c) = Inr sh)"
  shows "\<exists>ac g'. clip g a c = Inr (ac, g') \<and> opShape g' = opShape g"
  using assms Expression_live_ex[of g "ClipNodeOp a c"] by (auto simp: clip_def)

lemma dot_live:
  assumes "if isOptimized g \<and> deviceType g = cpu
           then (\<forall>x axes. \<exists>sh. opShape g (TransposeNodeOp x axes) = Inr sh)
              \<and> (\<forall>x. \<exists>sh. opShape g (Int16QuantizeNodeOp x (getClip g)) = Inr sh)
              \<and> (\<forall>x y. \<exists>sh. opShape g (Int16DotNodeOp x y scale) = Inr sh)
           else (getClip g = 0 \<or> (\<forall>x. \<exists>sh. opShape g (ClipNodeOp x (getClip g)) = Inr sh))
              \<and> (\<forall>x y. \<exists>sh. opShape g (DotNodeOp x y transA transB scale) = Inr sh)"
  shows "\<exists>r g'. dot order g a b transA transB scale = Inr (r, g')"
proof (cases "isOptimized g \<and> deviceType g = cpu")
  case True
  with assms have h: "\<forall>x axes. \<exists>sh. opShape g (TransposeNodeOp x axes) = Inr sh"
      "\<forall>x. \<exists>sh. opShape g (Int16QuantizeNodeOp x (getClip g)) = Inr sh"
      "\<forall>x y. \<exists>sh. opShape g (Int16DotNodeOp x y scale) = Inr sh" by simp_all
  let ?fa = "\<lambda>g0. bnd (if transA then transpose_last g0 a else Inr (a, g0)) (\<lambda>(a', g1).
                          int16_quantize g1 a' (getClip g))"
  let ?fb = "\<lambda>g0. bnd (if transB then Inr (b, g0) else transpose_last g0 b) (\<lambda>(b', g1).
                          int16_quantize g1 b' (getClip g))"
  have la: "\<exists>x g1. ?fa g0 = Inr (x, g1) \<and> opShape g1 = opShape g" if "opShape g0 = opShape g" for g0
    using quantized_operand_live[of g0 "getClip g" transA a] h that by simp
  have lb: "\<exists>x g1. ?fb g0 = Inr (x, g1) \<and> opShape g1 = opShape g" if "opShape g0 = opShape g" for g0
    using quantized_operand_swapped_live[of g0 "getClip g" transB b] h that by simp
  from arguments_live[of g ?fa ?fb order, OF la lb] obtain qa qb g4 where
    s: "arguments order g ?fa ?fb = Inr ((qa, qb), g4)" "opShape g4 = opShape g" by blast
  obtain r g' where "int16_dot g4 qa qb scale = Inr (r, g')"
    using Expression_live_ex[of g4 "Int16DotNodeOp qa qb scale"] h(3) s(2)
    by (auto simp: int16_dot_def)
  then show ?thesis using True s(1) by (auto simp: dot_def Let_def)
next
  case False
  with assms have h: "getClip g = 0 \<or> (\<forall>x. \<exists>sh. opShape g (ClipNodeOp x (getClip g)) = Inr sh)"
      "\<forall>x y. \<exists>sh. opShape g (DotNodeOp x y transA transB scale) = Inr sh" by simp_all
  have la: "\<exists>x g1. clip g0 a (getClip g) = Inr (x, g1) \<and> opShape g1 = opShape g"
    if "opShape g0 = opShape g" for g0
    using clip_live[of "getClip g" g0 a] h(1) that by auto
  have lb: "\<exists>x g1. clip g0 b (getClip g) = Inr (x, g1) \<and> opShape g1 = opShape g"
    if "opShape g0 = opShape g" for g0
    using clip_live[of "getClip g" g0 b] h(1) that by auto
  from arguments_live[of g "\<lambda>g0. clip g0 a (getClip g)" "\<lambda>g0. clip g0 b (getClip g)" order, OF la lb]
  obtain ac bc g2 where
    s: "arguments order g (\<lambda>g0. clip g0 a (getClip g)) (\<lambda>g0. clip g0 b (getClip g))
          = Inr ((ac, bc), g2)" "opShape g2 = opShape g" by blast
  obtain r g' where "Expression g2 (DotNodeOp ac bc transA transB scale) = Inr (r, g')"
    using Expression_live_ex[of g2 "DotNodeOp ac bc transA transB scale"] h(2) s(2) by auto
  then show ?thesis using False s(1) by (auto simp: dot_def Let_def)
qed

subsection \<open>The variants of \<open>affine\<close>\<close>

lemma Node_record_fields [simp]:
  "nodes (Node_record g e h st) = nodes g" "opShape (Node_record g e h st) = opShape g"
  "isOptimized (Node_record g e h st) = isOptimized g"
  "deviceType (Node_record g e h st) = deviceType g" "getClip (Node_record g e h st) = getClip g"
  by (simp_all add: Node_record_def)

lemma nodeOf_Node_record [simp]: "nodeOf (Node_record g e h st) x = nodeOf g x"
  by (simp add: nodeOf_def)













subsection \<open>The fingerprint of \<open>affine\<close>\<close>

lemma cdiv_nonneg: "0 \<le> d \<Longrightarrow> cdiv d 4 = d div 4"
  by (cases "d = 0") (simp_all add: cdiv_def)

text \<open>
  The hash of a call combines the hashes of the three operand shapes, every dimension
  divided by 4, with the two transposition flags. The first operands \<open>[32, 64]\<close> and
  \<open>[35, 64]\<close> give the same hash, whatever the hash functions are.
\<close>

lemma affine_hash_coarsened:
  "affine_hash H sa sb sbias transA transB
     = hash_combine H (hash_combine H (hash_combine H (hash_combine H
         (shapeHash H (map (\<lambda>d. cdiv d 4) sa))
         (HashSize (shapeHash H (map (\<lambda>d. cdiv d 4) sb))))
         (HashSize (shapeHash H (map (\<lambda>d. cdiv d 4) sbias))))
         (HashBool transA)) (HashBool transB)"
  "affine_hash H (shape exA) (shape exB) sbias transA transB
     = affine_hash H (shape exA') (shape exB) sbias transA transB"
  by (simp_all add: affine_hash_def affine_sh_def Let_def cdiv_def exA_def exA'_def)


lemmas example_defs = exampleGraph_def arguments_def Expression_def exA_def exB_def last_two_swapped_def

section \<open>The properties of the specification\<close>



text \<open>
  C2. With the optimize flag on the CPU, \<open>dot\<close> is the int16 product of the two quantized
  operands, each quantized with the backend clip value, the first transposed before it is
  quantized when \<open>transA\<close> is set and the second when \<open>transB\<close> is not. In every other
  configuration it is the construction of a \<open>DotNodeOp\<close> with the transposition flags and
  the scale: over \<open>a\<close> and \<open>b\<close> themselves when the clip value is 0, over the
  \<open>ClipNodeOp\<close> nodes of \<open>a\<close> and \<open>b\<close> with the clip value otherwise. These equations
  hold in both orders of evaluation of the two operands. \<open>dot\<close> returns an expression
  whenever the shapes of the nodes of its route can be computed. Whatever the order, the
  result it returns is an int16 product over two quantize nodes of the (transposed)
  operands on the first route and a \<open>DotNodeOp\<close> over the (clipped) operands on the
  second: it is the int16 product exactly when the flag is set and the device is the CPU.
\<close>

theorem dot_routes_by_optimize_and_device:
  "(isOptimized g \<and> deviceType g = cpu \<longrightarrow>
      dot order g a b transA transB scale
        = bnd (arguments order g
                 (\<lambda>g0. bnd (if transA
                            then Expression g0 (TransposeNodeOp a (last_two_swapped (length (shape a))))
                            else Inr (a, g0)) (\<lambda>(a', g1).
                       Expression g1 (Int16QuantizeNodeOp a' (getClip g))))
                 (\<lambda>g0. bnd (if transB
                            then Inr (b, g0)
                            else Expression g0 (TransposeNodeOp b (last_two_swapped (length (shape b)))))
                         (\<lambda>(b', g1).
                       Expression g1 (Int16QuantizeNodeOp b' (getClip g)))))
            (\<lambda>((qa, qb), g1). Expression g1 (Int16DotNodeOp qa qb scale)))
   \<and> (\<not> (isOptimized g \<and> deviceType g = cpu) \<and> getClip g = 0 \<longrightarrow>
        dot order g a b transA transB scale = Expression g (DotNodeOp a b transA transB scale))
   \<and> (\<not> (isOptimized g \<and> deviceType g = cpu) \<and> getClip g \<noteq> 0 \<longrightarrow>
        dot order g a b transA transB scale
          = bnd (arguments order g (\<lambda>g0. Expression g0 (ClipNodeOp a (getClip g)))
                                   (\<lambda>g0. Expression g0 (ClipNodeOp b (getClip g))))
              (\<lambda>((ac, bc), g1). Expression g1 (DotNodeOp ac bc transA transB scale)))
   \<and> ((if isOptimized g \<and> deviceType g = cpu
        then (\<forall>x axes. \<exists>sh. opShape g (TransposeNodeOp x axes) = Inr sh)
           \<and> (\<forall>x. \<exists>sh. opShape g (Int16QuantizeNodeOp x (getClip g)) = Inr sh)
           \<and> (\<forall>x y. \<exists>sh. opShape g (Int16DotNodeOp x y scale) = Inr sh)
        else (getClip g = 0 \<or> (\<forall>x. \<exists>sh. opShape g (ClipNodeOp x (getClip g)) = Inr sh))
           \<and> (\<forall>x y. \<exists>sh. opShape g (DotNodeOp x y transA transB scale) = Inr sh))
       \<longrightarrow> (\<exists>r g'. dot order g a b transA transB scale = Inr (r, g')))
   \<and> (\<forall>r g'. dot order g a b transA transB scale = Inr (r, g') \<longrightarrow>
        (if isOptimized g \<and> deviceType g = cpu
         then (\<exists>qa qb a' b'.
                nodeOf g' r = Some (Int16DotNodeOp qa qb scale)
              \<and> nodeOf g' qa = Some (Int16QuantizeNodeOp a' (getClip g))
              \<and> nodeOf g' qb = Some (Int16QuantizeNodeOp b' (getClip g))
              \<and> (if transA
                  then nodeOf g' a' = Some (TransposeNodeOp a (last_two_swapped (length (shape a))))
                  else a' = a)
              \<and> (if transB
                  then b' = b
                  else nodeOf g' b' = Some (TransposeNodeOp b (last_two_swapped (length (shape b))))))
         else (\<exists>ac bc.
                nodeOf g' r = Some (DotNodeOp ac bc transA transB scale)
              \<and> (if getClip g = 0
                  then ac = a \<and> bc = b \<and> nodes g' = nodes g @ [DotNodeOp a b transA transB scale]
                  else nodeOf g' ac = Some (ClipNodeOp a (getClip g))
                     \<and> nodeOf g' bc = Some (ClipNodeOp b (getClip g)))))
        \<and> ((\<exists>qa qb. nodeOf g' r = Some (Int16DotNodeOp qa qb scale))
             = (isOptimized g \<and> deviceType g = cpu)))"
proof (intro conjI impI allI)
  assume "isOptimized g \<and> deviceType g = cpu"
  then show "dot order g a b transA transB scale
        = bnd (arguments order g
                 (\<lambda>g0. bnd (if transA
                            then Expression g0 (TransposeNodeOp a (last_two_swapped (length (shape a))))
                            else Inr (a, g0)) (\<lambda>(a', g1).
                       Expression g1 (Int16QuantizeNodeOp a' (getClip g))))
                 (\<lambda>g0. bnd (if transB
                            then Inr (b, g0)
                            else Expression g0 (TransposeNodeOp b (last_two_swapped (length (shape b)))))
                         (\<lambda>(b', g1).
                       Expression g1 (Int16QuantizeNodeOp b' (getClip g)))))
            (\<lambda>((qa, qb), g1). Expression g1 (Int16DotNodeOp qa qb scale))"
    by (rule dot_int16_equation)
next
  assume "\<not> (isOptimized g \<and> deviceType g = cpu) \<and> getClip g = 0"
  then show "dot order g a b transA transB scale = Expression g (DotNodeOp a b transA transB scale)"
    using dot_general_equation(1) by blast
next
  assume "\<not> (isOptimized g \<and> deviceType g = cpu) \<and> getClip g \<noteq> 0"
  then show "dot order g a b transA transB scale
          = bnd (arguments order g (\<lambda>g0. Expression g0 (ClipNodeOp a (getClip g)))
                                   (\<lambda>g0. Expression g0 (ClipNodeOp b (getClip g))))
              (\<lambda>((ac, bc), g1). Expression g1 (DotNodeOp ac bc transA transB scale))"
    using dot_general_equation(2) by blast
next
  assume "if isOptimized g \<and> deviceType g = cpu
        then (\<forall>x axes. \<exists>sh. opShape g (TransposeNodeOp x axes) = Inr sh)
           \<and> (\<forall>x. \<exists>sh. opShape g (Int16QuantizeNodeOp x (getClip g)) = Inr sh)
           \<and> (\<forall>x y. \<exists>sh. opShape g (Int16DotNodeOp x y scale) = Inr sh)
        else (getClip g = 0 \<or> (\<forall>x. \<exists>sh. opShape g (ClipNodeOp x (getClip g)) = Inr sh))
           \<and> (\<forall>x y. \<exists>sh. opShape g (DotNodeOp x y transA transB scale) = Inr sh)"
  then show "\<exists>r g'. dot order g a b transA transB scale = Inr (r, g')"
    by (rule dot_live)
next
  fix r g'
  assume d: "dot order g a b transA transB scale = Inr (r, g')"
  note res = dot_result[OF d]
  show "if isOptimized g \<and> deviceType g = cpu
         then (\<exists>qa qb a' b'.
                nodeOf g' r = Some (Int16DotNodeOp qa qb scale)
              \<and> nodeOf g' qa = Some (Int16QuantizeNodeOp a' (getClip g))
              \<and> nodeOf g' qb = Some (Int16QuantizeNodeOp b' (getClip g))
              \<and> (if transA
                  then nodeOf g' a' = Some (TransposeNodeOp a (last_two_swapped (length (shape a))))
                  else a' = a)
              \<and> (if transB
                  then b' = b
                  else nodeOf g' b' = Some (TransposeNodeOp b (last_two_swapped (length (shape b))))))
         else (\<exists>ac bc.
                nodeOf g' r = Some (DotNodeOp ac bc transA transB scale)
              \<and> (if getClip g = 0
                  then ac = a \<and> bc = b \<and> nodes g' = nodes g @ [DotNodeOp a b transA transB scale]
                  else nodeOf g' ac = Some (ClipNodeOp a (getClip g))
                     \<and> nodeOf g' bc = Some (ClipNodeOp b (getClip g))))"
    by (rule res)
  show "(\<exists>qa qb. nodeOf g' r = Some (Int16DotNodeOp qa qb scale))
             = (isOptimized g \<and> deviceType g = cpu)"
    using res by (auto split: if_splits)
qed

theorem dot_routes_by_optimize_and_device_example:
  "dot LeftToRight (exampleGraph True cpu 2) exA exB False False 1 =
     Inr (\<lparr>ident = 8, shape = [32, 16]\<rparr>,
          (exampleGraph True cpu 2)\<lparr>nodes := nodes (exampleGraph True cpu 2) @
             [Int16QuantizeNodeOp exA 2,
              TransposeNodeOp exB [1, 0],
              Int16QuantizeNodeOp \<lparr>ident = 6, shape = [16, 64]\<rparr> 2,
              Int16DotNodeOp \<lparr>ident = 5, shape = [32, 64]\<rparr> \<lparr>ident = 7, shape = [16, 64]\<rparr> 1]\<rparr>)
   \<and> dot RightToLeft (exampleGraph True cpu 2) exA exB False False 1 =
     Inr (\<lparr>ident = 8, shape = [32, 16]\<rparr>,
          (exampleGraph True cpu 2)\<lparr>nodes := nodes (exampleGraph True cpu 2) @
             [TransposeNodeOp exB [1, 0],
              Int16QuantizeNodeOp \<lparr>ident = 5, shape = [16, 64]\<rparr> 2,
              Int16QuantizeNodeOp exA 2,
              Int16DotNodeOp \<lparr>ident = 7, shape = [32, 64]\<rparr> \<lparr>ident = 6, shape = [16, 64]\<rparr> 1]\<rparr>)
   \<and> dot LeftToRight (exampleGraph True cpu 0) exB exA True True 1 =
     Inr (\<lparr>ident = 8, shape = [16, 32]\<rparr>,
          (exampleGraph True cpu 0)\<lparr>nodes := nodes (exampleGraph True cpu 0) @
             [TransposeNodeOp exB [1, 0],
              Int16QuantizeNodeOp \<lparr>ident = 5, shape = [16, 64]\<rparr> 0,
              Int16QuantizeNodeOp exA 0,
              Int16DotNodeOp \<lparr>ident = 6, shape = [16, 64]\<rparr> \<lparr>ident = 7, shape = [32, 64]\<rparr> 1]\<rparr>)
   \<and> dot LeftToRight (exampleGraph False cpu 0) exB exA True True 1 =
     Inr (\<lparr>ident = 5, shape = [16, 32]\<rparr>,
          (exampleGraph False cpu 0)\<lparr>nodes := nodes (exampleGraph False cpu 0) @
             [DotNodeOp exB exA True True 1]\<rparr>)
   \<and> dot RightToLeft (exampleGraph True gpu 0) exA exB False False 1 =
     Inr (\<lparr>ident = 5, shape = [32, 16]\<rparr>,
          (exampleGraph True gpu 0)\<lparr>nodes := nodes (exampleGraph True gpu 0) @
             [DotNodeOp exA exB False False 1]\<rparr>)
   \<and> dot LeftToRight (exampleGraph False cpu 2) exA exB False False 1 =
     Inr (\<lparr>ident = 7, shape = [32, 16]\<rparr>,
          (exampleGraph False cpu 2)\<lparr>nodes := nodes (exampleGraph False cpu 2) @
             [ClipNodeOp exA 2, ClipNodeOp exB 2,
              DotNodeOp \<lparr>ident = 5, shape = [32, 64]\<rparr> \<lparr>ident = 6, shape = [64, 16]\<rparr> False False 1]\<rparr>)
   \<and> dot RightToLeft (exampleGraph False cpu 2) exA exB False False 1 =
     Inr (\<lparr>ident = 7, shape = [32, 16]\<rparr>,
          (exampleGraph False cpu 2)\<lparr>nodes := nodes (exampleGraph False cpu 2) @
             [ClipNodeOp exB 2, ClipNodeOp exA 2,
              DotNodeOp \<lparr>ident = 6, shape = [32, 64]\<rparr> \<lparr>ident = 5, shape = [64, 16]\<rparr> False False 1]\<rparr>)
   \<and> (\<exists>r g'. dot RightToLeft (exampleGraph True cpu 0) exB exA True True 1 = Inr (r, g'))"
proof -
  note int16 = dot_routes_by_optimize_and_device[THEN conjunct1, rule_format]
  note pass = dot_routes_by_optimize_and_device[THEN conjunct2, THEN conjunct1, rule_format]
  note clipped = dot_routes_by_optimize_and_device
                   [THEN conjunct2, THEN conjunct2, THEN conjunct1, rule_format]
  note returns = dot_routes_by_optimize_and_device
                   [THEN conjunct2, THEN conjunct2, THEN conjunct2, THEN conjunct1, rule_format]
  have o2: "isOptimized (exampleGraph True cpu 2) \<and> deviceType (exampleGraph True cpu 2) = cpu"
    and o0: "isOptimized (exampleGraph True cpu 0) \<and> deviceType (exampleGraph True cpu 0) = cpu"
    and n0: "\<not> (isOptimized (exampleGraph False cpu 0) \<and> deviceType (exampleGraph False cpu 0) = cpu)
             \<and> getClip (exampleGraph False cpu 0) = 0"
    and g0: "\<not> (isOptimized (exampleGraph True gpu 0) \<and> deviceType (exampleGraph True gpu 0) = cpu)
             \<and> getClip (exampleGraph True gpu 0) = 0"
    and n2: "\<not> (isOptimized (exampleGraph False cpu 2) \<and> deviceType (exampleGraph False cpu 2) = cpu)
             \<and> getClip (exampleGraph False cpu 2) \<noteq> 0"
    by (simp_all add: exampleGraph_def)
  have d1: "dot LeftToRight (exampleGraph True cpu 2) exA exB False False 1 =
     Inr (\<lparr>ident = 8, shape = [32, 16]\<rparr>,
          (exampleGraph True cpu 2)\<lparr>nodes := nodes (exampleGraph True cpu 2) @
             [Int16QuantizeNodeOp exA 2,
              TransposeNodeOp exB [1, 0],
              Int16QuantizeNodeOp \<lparr>ident = 6, shape = [16, 64]\<rparr> 2,
              Int16DotNodeOp \<lparr>ident = 5, shape = [32, 64]\<rparr> \<lparr>ident = 7, shape = [16, 64]\<rparr> 1]\<rparr>)"
    unfolding int16[OF o2] by (simp add: example_defs)
  have d2: "dot RightToLeft (exampleGraph True cpu 2) exA exB False False 1 =
     Inr (\<lparr>ident = 8, shape = [32, 16]\<rparr>,
          (exampleGraph True cpu 2)\<lparr>nodes := nodes (exampleGraph True cpu 2) @
             [TransposeNodeOp exB [1, 0],
              Int16QuantizeNodeOp \<lparr>ident = 5, shape = [16, 64]\<rparr> 2,
              Int16QuantizeNodeOp exA 2,
              Int16DotNodeOp \<lparr>ident = 7, shape = [32, 64]\<rparr> \<lparr>ident = 6, shape = [16, 64]\<rparr> 1]\<rparr>)"
    unfolding int16[OF o2] by (simp add: example_defs)
  have d3: "dot LeftToRight (exampleGraph True cpu 0) exB exA True True 1 =
     Inr (\<lparr>ident = 8, shape = [16, 32]\<rparr>,
          (exampleGraph True cpu 0)\<lparr>nodes := nodes (exampleGraph True cpu 0) @
             [TransposeNodeOp exB [1, 0],
              Int16QuantizeNodeOp \<lparr>ident = 5, shape = [16, 64]\<rparr> 0,
              Int16QuantizeNodeOp exA 0,
              Int16DotNodeOp \<lparr>ident = 6, shape = [16, 64]\<rparr> \<lparr>ident = 7, shape = [32, 64]\<rparr> 1]\<rparr>)"
    unfolding int16[OF o0] by (simp add: example_defs)
  have d4: "dot LeftToRight (exampleGraph False cpu 0) exB exA True True 1 =
     Inr (\<lparr>ident = 5, shape = [16, 32]\<rparr>,
          (exampleGraph False cpu 0)\<lparr>nodes := nodes (exampleGraph False cpu 0) @
             [DotNodeOp exB exA True True 1]\<rparr>)"
    unfolding pass[OF n0] by (simp add: example_defs)
  have d5: "dot RightToLeft (exampleGraph True gpu 0) exA exB False False 1 =
     Inr (\<lparr>ident = 5, shape = [32, 16]\<rparr>,
          (exampleGraph True gpu 0)\<lparr>nodes := nodes (exampleGraph True gpu 0) @
             [DotNodeOp exA exB False False 1]\<rparr>)"
    unfolding pass[OF g0] by (simp add: example_defs)
  have d6: "dot LeftToRight (exampleGraph False cpu 2) exA exB False False 1 =
     Inr (\<lparr>ident = 7, shape = [32, 16]\<rparr>,
          (exampleGraph False cpu 2)\<lparr>nodes := nodes (exampleGraph False cpu 2) @
             [ClipNodeOp exA 2, ClipNodeOp exB 2,
              DotNodeOp \<lparr>ident = 5, shape = [32, 64]\<rparr> \<lparr>ident = 6, shape = [64, 16]\<rparr> False False 1]\<rparr>)"
    unfolding clipped[OF n2] by (simp add: example_defs)
  have d7: "dot RightToLeft (exampleGraph False cpu 2) exA exB False False 1 =
     Inr (\<lparr>ident = 7, shape = [32, 16]\<rparr>,
          (exampleGraph False cpu 2)\<lparr>nodes := nodes (exampleGraph False cpu 2) @
             [ClipNodeOp exB 2, ClipNodeOp exA 2,
              DotNodeOp \<lparr>ident = 6, shape = [32, 64]\<rparr> \<lparr>ident = 5, shape = [64, 16]\<rparr> False False 1]\<rparr>)"
    unfolding clipped[OF n2] by (simp add: example_defs)
  have d8: "\<exists>r g'. dot RightToLeft (exampleGraph True cpu 0) exB exA True True 1 = Inr (r, g')"
    by (rule returns) (simp add: exampleGraph_def)
  show ?thesis using d1 d2 d3 d4 d5 d6 d7 d8 by (intro conjI)
qed

text \<open>
  C4. \<open>softmax(a, mask, axis)\<close> is the composition \<open>softmax(a + (1 - mask) * c, axis)\<close> of the
  operators, with \<open>c\<close> the literal -99999999, within 1 of -1e8. A successful call adds
  the negation of the mask, the scalar addition of 1, the scalar multiplication by \<open>c\<close>
  and the sum with \<open>a\<close>, and then the nodes of \<open>softmax\<close> on that sum: transpositions and
  one \<open>SoftmaxNodeOp\<close>, no masked-softmax node. With the values of the elementwise
  kernels, the operand of the softmax holds \<open>a + (1 - mask) * c\<close> at every position:
  \<open>a + c\<close> where the mask is 0, and \<open>a\<close> where it is 1.
\<close>

theorem softmax_mask_is_composition:
  "softmax_mask g a m axis =
     bnd (operator_minus_float_Expr g 1 m) (\<lambda>(d, g1).
     bnd (operator_mult_Expr_float g1 d (- 99999999)) (\<lambda>(logMask, g2).
     bnd (operator_plus g2 a logMask) (\<lambda>(s, g3).
     softmax g3 s axis)))
   \<and> \<bar>(- 99999999) - (- 100000000 :: real)\<bar> \<le> 1
   \<and> (\<forall>r g'. softmax_mask g a m axis = Inr (r, g') \<longrightarrow>
        (\<exists>nm d logMask s g3 new.
            nodes g3 = nodes g @ [NegNodeOp m, ScalarAddNodeOp nm 1,
                                  ScalarMultNodeOp d (- 99999999), PlusNodeOp a logMask]
          \<and> ident nm = length (nodes g) \<and> ident d = length (nodes g) + 1
          \<and> ident logMask = length (nodes g) + 2 \<and> ident s = length (nodes g) + 3
          \<and> softmax g3 s axis = Inr (r, g')
          \<and> nodes g' = nodes g3 @ new
          \<and> length (filter isSoftmaxNodeOp new) = 1
          \<and> list_all (\<lambda>n. isSoftmaxNodeOp n \<or> isTransposeNodeOp n) new
          \<and> (\<forall>V. computes V g' nm \<and> computes V g' d \<and> computes V g' logMask \<and> computes V g' s \<longrightarrow>
                (\<forall>idx. V s idx = V a (broadcast_index (shape a) idx)
                              + (1 - V m (broadcast_index (shape logMask) idx)) * (- 99999999)))))"
proof -
  have struct: "\<exists>nm d logMask s g3 new.
            nodes g3 = nodes g @ [NegNodeOp m, ScalarAddNodeOp nm 1,
                                  ScalarMultNodeOp d (- 99999999), PlusNodeOp a logMask]
          \<and> ident nm = length (nodes g) \<and> ident d = length (nodes g) + 1
          \<and> ident logMask = length (nodes g) + 2 \<and> ident s = length (nodes g) + 3
          \<and> softmax g3 s axis = Inr (r, g')
          \<and> nodes g' = nodes g3 @ new
          \<and> length (filter isSoftmaxNodeOp new) = 1
          \<and> list_all (\<lambda>n. isSoftmaxNodeOp n \<or> isTransposeNodeOp n) new
          \<and> (\<forall>V. computes V g' nm \<and> computes V g' d \<and> computes V g' logMask \<and> computes V g' s \<longrightarrow>
                (\<forall>idx. V s idx = V a (broadcast_index (shape a) idx)
                              + (1 - V m (broadcast_index (shape logMask) idx)) * (- 99999999)))"
    if ok: "softmax_mask g a m axis = Inr (r, g')" for r g'
  proof -
    from ok obtain nm g0 d g1 logMask g2 s g3 where
      s0: "Expression g (NegNodeOp m) = Inr (nm, g0)" and
      s1: "Expression g0 (ScalarAddNodeOp nm 1) = Inr (d, g1)" and
      s2: "Expression g1 (ScalarMultNodeOp d (- 99999999)) = Inr (logMask, g2)" and
      s3: "Expression g2 (PlusNodeOp a logMask) = Inr (s, g3)" and
      s4: "softmax g3 s axis = Inr (r, g')"
      by (auto simp: softmax_mask_def operator_minus_float_Expr_def operator_neg_def
            operator_mult_Expr_float_def operator_plus_def bnd_def split: sum.splits)
    note e0 = Expression_Inr[OF s0] and e1 = Expression_Inr[OF s1]
      and e2 = Expression_Inr[OF s2] and e3 = Expression_Inr[OF s3]
    have n3: "nodes g3 = nodes g @ [NegNodeOp m, ScalarAddNodeOp nm 1,
                                  ScalarMultNodeOp d (- 99999999), PlusNodeOp a logMask]"
      using e0 e1 e2 e3 by simp
    have ids: "ident nm = length (nodes g)" "ident d = length (nodes g) + 1"
      "ident logMask = length (nodes g) + 2" "ident s = length (nodes g) + 3"
      using e0 e1 e2 e3 by simp_all
    from softmax_nodes[OF s4] obtain new where
      new: "nodes g' = nodes g3 @ new" "length (filter isSoftmaxNodeOp new) = 1"
        "list_all (\<lambda>n. isSoftmaxNodeOp n \<or> isTransposeNodeOp n) new"
      by blast
    have look: "nodeOf g' nm = Some (NegNodeOp m)" "nodeOf g' d = Some (ScalarAddNodeOp nm 1)"
      "nodeOf g' logMask = Some (ScalarMultNodeOp d (- 99999999))"
      "nodeOf g' s = Some (PlusNodeOp a logMask)"
      using n3 ids new(1) by (simp_all add: nodeOf_def nth_append)
    have val: "V s idx = V a (broadcast_index (shape a) idx)
                 + (1 - V m (broadcast_index (shape logMask) idx)) * (- 99999999)"
      if c: "computes V g' nm" "computes V g' d" "computes V g' logMask" "computes V g' s" for V idx
    proof -
      from c look have
        v0: "V nm = (\<lambda>idx. - V m idx)" and
        v1: "V d = (\<lambda>idx. V nm idx + 1)" and
        v2: "V logMask = (\<lambda>idx. V d idx * (- 99999999))" and
        v3: "V s = (\<lambda>idx. V a (broadcast_index (shape a) idx)
                         + V logMask (broadcast_index (shape logMask) idx))"
        by (simp_all add: computes_def)
      have "V s idx = V a (broadcast_index (shape a) idx)
                         + V logMask (broadcast_index (shape logMask) idx)"
        by (subst v3) simp
      also have "V logMask (broadcast_index (shape logMask) idx)
                   = V d (broadcast_index (shape logMask) idx) * (- 99999999)"
        by (subst v2) simp
      also have "V d (broadcast_index (shape logMask) idx)
                   = V nm (broadcast_index (shape logMask) idx) + 1"
        by (subst v1) simp
      also have "V nm (broadcast_index (shape logMask) idx)
                   = - V m (broadcast_index (shape logMask) idx)"
        by (subst v0) simp
      finally show ?thesis by simp
    qed
    show ?thesis using n3 ids s4 new val by blast
  qed
  have eq: "softmax_mask g a m axis =
     bnd (operator_minus_float_Expr g 1 m) (\<lambda>(d, g1).
     bnd (operator_mult_Expr_float g1 d (- 99999999)) (\<lambda>(logMask, g2).
     bnd (operator_plus g2 a logMask) (\<lambda>(s, g3).
     softmax g3 s axis)))"
    by (simp add: softmax_mask_def)
  have c: "\<bar>(- 99999999) - (- 100000000 :: real)\<bar> \<le> 1" by simp
  show ?thesis using eq c struct by blast
qed

theorem softmax_mask_is_composition_example:
  "softmax_mask (exampleGraph False cpu 0) exA exMask (- 1) =
     Inr (\<lparr>ident = 9, shape = [32, 64]\<rparr>,
          (exampleGraph False cpu 0)\<lparr>nodes := nodes (exampleGraph False cpu 0) @
             [NegNodeOp exMask,
              ScalarAddNodeOp \<lparr>ident = 5, shape = [32, 64]\<rparr> 1,
              ScalarMultNodeOp \<lparr>ident = 6, shape = [32, 64]\<rparr> (- 99999999),
              PlusNodeOp exA \<lparr>ident = 7, shape = [32, 64]\<rparr>,
              SoftmaxNodeOp \<lparr>ident = 8, shape = [32, 64]\<rparr>]\<rparr>)
   \<and> maskedValues \<lparr>ident = 8, shape = [32, 64]\<rparr> [0, 0] = - 99999998
   \<and> maskedValues \<lparr>ident = 8, shape = [32, 64]\<rparr> [0, 1] = 1"
proof -
  let ?G = "exampleGraph False cpu 0"
  let ?nm = "\<lparr>ident = 5, shape = [32, 64]\<rparr>" and ?d = "\<lparr>ident = 6, shape = [32, 64]\<rparr>"
  let ?l = "\<lparr>ident = 7, shape = [32, 64]\<rparr>" and ?s = "\<lparr>ident = 8, shape = [32, 64]\<rparr>"
  let ?r = "\<lparr>ident = 9, shape = [32, 64]\<rparr>"
  let ?G' = "?G\<lparr>nodes := nodes ?G @
             [NegNodeOp exMask, ScalarAddNodeOp ?nm 1, ScalarMultNodeOp ?d (- 99999999),
              PlusNodeOp exA ?l, SoftmaxNodeOp ?s]\<rparr>"
  have run: "softmax_mask ?G exA exMask (- 1) = Inr (?r, ?G')"
    by (simp add: softmax_mask_def operator_minus_float_Expr_def operator_neg_def
          operator_mult_Expr_float_def operator_plus_def Expression_def exampleGraph_def
          exA_def exMask_def)
  from softmax_mask_is_composition[of ?G exA exMask "- 1"] run
  obtain nm d logMask s g3 new where
    n3: "nodes g3 = nodes ?G @ [NegNodeOp exMask, ScalarAddNodeOp nm 1,
                                  ScalarMultNodeOp d (- 99999999), PlusNodeOp exA logMask]" and
    sm: "softmax g3 s (- 1) = Inr (?r, ?G')" and
    new: "nodes ?G' = nodes g3 @ new" and
    val: "\<forall>V. computes V ?G' nm \<and> computes V ?G' d \<and> computes V ?G' logMask \<and> computes V ?G' s \<longrightarrow>
                (\<forall>idx. V s idx = V exA (broadcast_index (shape exA) idx)
                              + (1 - V exMask (broadcast_index (shape logMask) idx)) * (- 99999999))"
    by blast
  from n3 new have h: "nm = ?nm" "d = ?d" "logMask = ?l" by simp_all
  from sm have "nodes ?G' = nodes g3 @ [SoftmaxNodeOp s]" by (simp add: Expression_nodes)
  with n3 have hs: "s = ?s" by simp
  have c: "computes maskedValues ?G' ?nm" "computes maskedValues ?G' ?d"
    "computes maskedValues ?G' ?l" "computes maskedValues ?G' ?s"
    by (simp_all add: computes_def nodeOf_def exampleGraph_def maskedValues_def exA_def exMask_def)
  from val h hs c have v: "maskedValues ?s idx = maskedValues exA (broadcast_index (shape exA) idx)
        + (1 - maskedValues exMask (broadcast_index [32, 64] idx)) * (- 99999999)" for idx
    by simp
  have "maskedValues ?s [0, 0] = - 99999998"
    by (subst v) (simp add: maskedValues_def exA_def exMask_def exMaskTensor_def broadcast_index_def)
  moreover have "maskedValues ?s [0, 1] = 1"
    by (subst v) (simp add: maskedValues_def exA_def exMask_def exMaskTensor_def broadcast_index_def)
  ultimately show ?thesis using run by simp
qed

text \<open>
  C5. For an axis other than -1, \<open>softmax\<close> is the pipeline of the three steps: swap the
  axis to the last position, apply the last-axis softmax node, swap back. Whatever the
  axis, the nodes a successful call adds are transpositions and exactly one
  \<open>SoftmaxNodeOp\<close>, the node that carries no axis.
\<close>

theorem softmax_other_axis_is_swap_pipeline:
  assumes "axis \<noteq> - 1"
  shows "softmax g a axis = softmax_pipeline g a axis
       \<and> (\<forall>r g'. softmax g a axis = Inr (r, g') \<longrightarrow>
            (\<exists>new. nodes g' = nodes g @ new \<and> length (filter isSoftmaxNodeOp new) = 1
                \<and> list_all (\<lambda>n. isSoftmaxNodeOp n \<or> isTransposeNodeOp n) new))"
  using assms softmax_nodes[of g a axis] by (simp add: softmax_pipeline_def)

theorem softmax_other_axis_is_swap_pipeline_example:
  "(0::int) \<noteq> - 1 \<and>
   softmax (exampleGraph False cpu 0) exA 0 = softmax_pipeline (exampleGraph False cpu 0) exA 0 \<and>
   softmax (exampleGraph False cpu 0) exA 0 =
     Inr (\<lparr>ident = 7, shape = [32, 64]\<rparr>,
          (exampleGraph False cpu 0)\<lparr>nodes := nodes (exampleGraph False cpu 0) @
             [TransposeNodeOp exA [1, 0],
              SoftmaxNodeOp \<lparr>ident = 5, shape = [64, 32]\<rparr>,
              TransposeNodeOp \<lparr>ident = 6, shape = [64, 32]\<rparr> [1, 0]]\<rparr>)"
proof -
  have ne: "(0::int) \<noteq> - 1" by simp
  have "softmax_pipeline (exampleGraph False cpu 0) exA 0 =
     Inr (\<lparr>ident = 7, shape = [32, 64]\<rparr>,
          (exampleGraph False cpu 0)\<lparr>nodes := nodes (exampleGraph False cpu 0) @
             [TransposeNodeOp exA [1, 0],
              SoftmaxNodeOp \<lparr>ident = 5, shape = [64, 32]\<rparr>,
              TransposeNodeOp \<lparr>ident = 6, shape = [64, 32]\<rparr> [1, 0]]\<rparr>)"
    by (simp add: softmax_pipeline_def swapAxes_def Shape_axis_def transpose_axes_def
          Expression_def exA_def exampleGraph_def)
  then show ?thesis
    using softmax_other_axis_is_swap_pipeline[OF ne, of "exampleGraph False cpu 0" exA] by simp
qed

text \<open>
  C6. When the rank of \<open>a\<close> is at least \<open>dims\<close>, \<open>atleast_nd\<close> returns \<open>a\<close> and the graph
  unchanged. Otherwise it is the reshape of \<open>a\<close> to the shape of \<open>a\<close> left-padded with 1s:
  that shape has rank \<open>dims\<close>, its leading positions hold 1, its trailing positions are the
  dimensions of \<open>a\<close>, and it has as many elements as \<open>a\<close>.
\<close>

theorem atleast_nd_identity_or_left_padded_reshape:
  "(dims \<le> length (shape a) \<longrightarrow> atleast_nd g a dims = Inr (a, g))
   \<and> (length (shape a) < dims \<longrightarrow>
        atleast_nd g a dims = reshape g a (left_padded (shape a) dims)
        \<and> reshape g a (left_padded (shape a) dims) = Expression g (ReshapeNodeOp a (left_padded (shape a) dims))
        \<and> length (left_padded (shape a) dims) = dims
        \<and> take (dims - length (shape a)) (left_padded (shape a) dims) = replicate (dims - length (shape a)) 1
        \<and> drop (dims - length (shape a)) (left_padded (shape a) dims) = shape a
        \<and> Shape_elements (left_padded (shape a) dims) = Shape_elements (shape a))"
proof -
  have "atleast_nd g a dims = reshape g a (left_padded (shape a) dims)" if "length (shape a) < dims"
    using that atleast_nd_loop_pads[OF that] by (simp add: atleast_nd_def del: atleast_nd_loop.simps)
  then show ?thesis
    by (simp add: atleast_nd_def left_padded_def Shape_elements_def reshape_def
             del: atleast_nd_loop.simps)
qed

theorem atleast_nd_identity_or_left_padded_reshape_example:
  "atleast_nd (exampleGraph False cpu 0) exA 2 = Inr (exA, exampleGraph False cpu 0)
   \<and> atleast_nd (exampleGraph False cpu 0) exA 4 = reshape (exampleGraph False cpu 0) exA [1, 1, 32, 64]"
proof -
  have l: "length (shape exA) = 2" by (simp add: exA_def)
  have p: "left_padded (shape exA) 4 = [1, 1, 32, 64]" by (simp add: left_padded_def exA_def numeral_eq_Suc)
  show ?thesis
    using atleast_nd_identity_or_left_padded_reshape[of 2 exA "exampleGraph False cpu 0"]
          atleast_nd_identity_or_left_padded_reshape[of 4 exA "exampleGraph False cpu 0"] l p
    by simp
qed

text \<open>
  C7. \<open>weighted_average(v, w, axis)\<close> is the composition
  \<open>scalar_product(v, w, axis) / sum(w, axis)\<close>: a successful call adds the scalar product
  node, the sum node and the division node over the two. The division reads both
  operands under broadcasting. With the values of the kernels, the result holds at every
  index what the result of \<open>sum(v * w, axis) / sum(w, axis)\<close> holds, when the product node
  has the broadcast shape of \<open>v\<close> and \<open>w\<close> and the two numerators have the same shape.
\<close>

theorem weighted_average_is_scalar_product_over_sum:
  "weighted_average g v w ax =
     bnd (scalar_product g v w ax) (\<lambda>(p, g1).
     bnd (sum_Expr g1 w ax) (\<lambda>(s, g2).
     operator_div g2 p s))
   \<and> (\<forall>r g'. weighted_average g v w ax = Inr (r, g') \<longrightarrow>
       (\<exists>p s.
           nodes g' = nodes g @ [ScalarProductNodeOp v w ax, SumNodeOp w ax, DivNodeOp p s]
         \<and> ident p = length (nodes g) \<and> ident s = length (nodes g) + 1
         \<and> ident r = length (nodes g) + 2
         \<and> (\<forall>V. computes V g' r \<longrightarrow>
               (\<forall>idx. V r idx = V p (broadcast_index (shape p) idx)
                               / V s (broadcast_index (shape s) idx)))
         \<and> (\<forall>r' g''. sum_of_products_over_sum g v w ax = Inr (r', g'') \<longrightarrow>
              (\<exists>vw n d.
                  nodes g'' = nodes g @ [MultNodeOp v w, SumNodeOp vw ax, SumNodeOp w ax,
                                         DivNodeOp n d]
                \<and> shape d = shape s
                \<and> (\<forall>V V'. shape vw = broadcast_shape (shape v) (shape w) \<and> shape n = shape p
                       \<and> computes V g' p \<and> computes V g' s \<and> computes V g' r
                       \<and> computes V' g'' vw \<and> computes V' g'' n \<and> computes V' g'' d
                       \<and> computes V' g'' r'
                       \<and> V' v = V v \<and> V' w = V w
                     \<longrightarrow> (\<forall>idx. V r idx = V' r' idx))))))"
proof -
  have main: "\<exists>p s.
           nodes g' = nodes g @ [ScalarProductNodeOp v w ax, SumNodeOp w ax, DivNodeOp p s]
         \<and> ident p = length (nodes g) \<and> ident s = length (nodes g) + 1
         \<and> ident r = length (nodes g) + 2
         \<and> (\<forall>V. computes V g' r \<longrightarrow>
               (\<forall>idx. V r idx = V p (broadcast_index (shape p) idx)
                               / V s (broadcast_index (shape s) idx)))
         \<and> (\<forall>r' g''. sum_of_products_over_sum g v w ax = Inr (r', g'') \<longrightarrow>
              (\<exists>vw n d.
                  nodes g'' = nodes g @ [MultNodeOp v w, SumNodeOp vw ax, SumNodeOp w ax,
                                         DivNodeOp n d]
                \<and> shape d = shape s
                \<and> (\<forall>V V'. shape vw = broadcast_shape (shape v) (shape w) \<and> shape n = shape p
                       \<and> computes V g' p \<and> computes V g' s \<and> computes V g' r
                       \<and> computes V' g'' vw \<and> computes V' g'' n \<and> computes V' g'' d
                       \<and> computes V' g'' r'
                       \<and> V' v = V v \<and> V' w = V w
                     \<longrightarrow> (\<forall>idx. V r idx = V' r' idx))))"
    if ok: "weighted_average g v w ax = Inr (r, g')" for r g'
  proof -
    from ok obtain p g1 s g2 where
      s1: "Expression g (ScalarProductNodeOp v w ax) = Inr (p, g1)" and
      s2: "Expression g1 (SumNodeOp w ax) = Inr (s, g2)" and
      s3: "Expression g2 (DivNodeOp p s) = Inr (r, g')"
      by (auto simp: weighted_average_def scalar_product_def sum_Expr_def operator_div_def
            bnd_def split: sum.splits)
    note e1 = Expression_Inr[OF s1] and e2 = Expression_Inr[OF s2] and e3 = Expression_Inr[OF s3]
    have ns: "nodes g' = nodes g @ [ScalarProductNodeOp v w ax, SumNodeOp w ax, DivNodeOp p s]"
      using e1 e2 e3 by simp
    have ids: "ident p = length (nodes g)" "ident s = length (nodes g) + 1"
      "ident r = length (nodes g) + 2"
      using e1 e2 e3 by simp_all
    have look: "nodeOf g' p = Some (ScalarProductNodeOp v w ax)"
      "nodeOf g' s = Some (SumNodeOp w ax)" "nodeOf g' r = Some (DivNodeOp p s)"
      using ns ids by (simp_all add: nodeOf_def nth_append)
    have sshape: "opShape g (SumNodeOp w ax) = Inr (shape s)"
      using Expression_opShape[OF s1] Expression_opShape[OF s2] by simp
    have quot: "V r idx = V p (broadcast_index (shape p) idx) / V s (broadcast_index (shape s) idx)"
      if "computes V g' r" for V idx
    proof -
      from computes_node[OF that look(3)]
      have "V r = (\<lambda>idx. V p (broadcast_index (shape p) idx) / V s (broadcast_index (shape s) idx))"
        by simp
      then show ?thesis by (rule fun_cong)
    qed
    have cmp: "\<exists>vw n d.
                  nodes g'' = nodes g @ [MultNodeOp v w, SumNodeOp vw ax, SumNodeOp w ax,
                                         DivNodeOp n d]
                \<and> shape d = shape s
                \<and> (\<forall>V V'. shape vw = broadcast_shape (shape v) (shape w) \<and> shape n = shape p
                       \<and> computes V g' p \<and> computes V g' s \<and> computes V g' r
                       \<and> computes V' g'' vw \<and> computes V' g'' n \<and> computes V' g'' d
                       \<and> computes V' g'' r'
                       \<and> V' v = V v \<and> V' w = V w
                     \<longrightarrow> (\<forall>idx. V r idx = V' r' idx))"
      if ok': "sum_of_products_over_sum g v w ax = Inr (r', g'')" for r' g''
    proof -
      from ok' obtain vw h1 n h2 d h3 where
        t1: "Expression g (MultNodeOp v w) = Inr (vw, h1)" and
        t2: "Expression h1 (SumNodeOp vw ax) = Inr (n, h2)" and
        t3: "Expression h2 (SumNodeOp w ax) = Inr (d, h3)" and
        t4: "Expression h3 (DivNodeOp n d) = Inr (r', g'')"
        by (auto simp: sum_of_products_over_sum_def operator_mult_def sum_Expr_def
              operator_div_def bnd_def split: sum.splits)
      note f1 = Expression_Inr[OF t1] and f2 = Expression_Inr[OF t2]
        and f3 = Expression_Inr[OF t3] and f4 = Expression_Inr[OF t4]
      have ns': "nodes g'' = nodes g @ [MultNodeOp v w, SumNodeOp vw ax, SumNodeOp w ax,
                                         DivNodeOp n d]"
        using f1 f2 f3 f4 by simp
      have look': "nodeOf g'' vw = Some (MultNodeOp v w)" "nodeOf g'' n = Some (SumNodeOp vw ax)"
        "nodeOf g'' d = Some (SumNodeOp w ax)" "nodeOf g'' r' = Some (DivNodeOp n d)"
        using ns' f1 f2 f3 f4 by (simp_all add: nodeOf_def nth_append)
      have "opShape h2 (SumNodeOp w ax) = Inr (shape d)" using f3 by simp
      moreover have "opShape h2 = opShape g"
        using Expression_opShape[OF t1] Expression_opShape[OF t2] by simp
      ultimately have dshape: "shape d = shape s" using sshape by simp
      have vals: "V r idx = V' r' idx"
        if sh: "shape vw = broadcast_shape (shape v) (shape w)" "shape n = shape p"
          and c: "computes V g' p" "computes V g' s" "computes V g' r"
          and c': "computes V' g'' vw" "computes V' g'' n" "computes V' g'' d" "computes V' g'' r'"
          and ag: "V' v = V v" "V' w = V w"
        for V V' idx
      proof -
        from computes_node[OF c(1) look(1)] obtain k where
          k: "Shape_axis (broadcast_shape (shape v) (shape w)) ax = Inr k" and
          vp: "V p = (\<lambda>idx. \<Sum>j < nat (broadcast_shape (shape v) (shape w) ! k).
                   V v (broadcast_index (shape v) (idx[k := j]))
                 * V w (broadcast_index (shape w) (idx[k := j])))"
          by (auto split: sum.splits)
        from computes_node[OF c(2) look(2)] obtain kw where
          kw: "Shape_axis (shape w) ax = Inr kw" and
          vs: "V s = (\<lambda>idx. \<Sum>j < nat (shape w ! kw). V w (idx[kw := j]))"
          by (auto split: sum.splits)
        from computes_node[OF c'(1) look'(1)] have
          vvw: "V' vw = (\<lambda>idx. V' v (broadcast_index (shape v) idx)
                              * V' w (broadcast_index (shape w) idx))"
          by simp
        from computes_node[OF c'(2) look'(2)] k sh(1) have
          vn: "V' n = (\<lambda>idx. \<Sum>j < nat (broadcast_shape (shape v) (shape w) ! k).
                           V' vw (idx[k := j]))"
          by (auto split: sum.splits)
        from computes_node[OF c'(3) look'(3)] kw have
          vd: "V' d = (\<lambda>idx. \<Sum>j < nat (shape w ! kw). V' w (idx[kw := j]))"
          by (auto split: sum.splits)
        from computes_node[OF c'(4) look'(4)] have
          vr': "V' r' = (\<lambda>idx. V' n (broadcast_index (shape n) idx)
                               / V' d (broadcast_index (shape d) idx))"
          by simp
        have "V' n = V p" by (simp add: vn vvw vp ag)
        moreover have "V' d = V s" by (simp add: vd vs ag)
        ultimately have "V' r' idx = V p (broadcast_index (shape p) idx)
                               / V s (broadcast_index (shape s) idx)"
          using sh(2) dshape by (subst vr') simp
        then show ?thesis using quot[OF c(3), of idx] by simp
      qed
      show ?thesis using ns' dshape vals by blast
    qed
    show ?thesis using ns ids quot cmp by blast
  qed
  have eq: "weighted_average g v w ax =
     bnd (scalar_product g v w ax) (\<lambda>(p, g1).
     bnd (sum_Expr g1 w ax) (\<lambda>(s, g2).
     operator_div g2 p s))"
    by (simp add: weighted_average_def)
  show ?thesis using eq main by blast
qed

theorem weighted_average_is_scalar_product_over_sum_example:
  "weighted_average (exampleGraph False cpu 0) exA exMask (- 1) =
     Inr (\<lparr>ident = 7, shape = [32, 1]\<rparr>,
          (exampleGraph False cpu 0)\<lparr>nodes := nodes (exampleGraph False cpu 0) @
             [ScalarProductNodeOp exA exMask (- 1), SumNodeOp exMask (- 1),
              DivNodeOp \<lparr>ident = 5, shape = [32, 1]\<rparr> \<lparr>ident = 6, shape = [32, 1]\<rparr>]\<rparr>)
   \<and> sum_of_products_over_sum (exampleGraph False cpu 0) exA exMask (- 1) =
     Inr (\<lparr>ident = 8, shape = [32, 1]\<rparr>,
          (exampleGraph False cpu 0)\<lparr>nodes := nodes (exampleGraph False cpu 0) @
             [MultNodeOp exA exMask, SumNodeOp \<lparr>ident = 5, shape = [32, 64]\<rparr> (- 1),
              SumNodeOp exMask (- 1),
              DivNodeOp \<lparr>ident = 6, shape = [32, 1]\<rparr> \<lparr>ident = 7, shape = [32, 1]\<rparr>]\<rparr>)
   \<and> averagedValues \<lparr>ident = 7, shape = [32, 1]\<rparr> [0, 0]
       = summedValues \<lparr>ident = 8, shape = [32, 1]\<rparr> [0, 0]
   \<and> averagedValues \<lparr>ident = 7, shape = [32, 1]\<rparr> [0, 0] = 3"
proof -
  let ?G = "exampleGraph False cpu 0"
  let ?p = "\<lparr>ident = 5, shape = [32, 1]\<rparr>" and ?s = "\<lparr>ident = 6, shape = [32, 1]\<rparr>"
  let ?r = "\<lparr>ident = 7, shape = [32, 1]\<rparr>"
  let ?vw = "\<lparr>ident = 5, shape = [32, 64]\<rparr>" and ?n = "\<lparr>ident = 6, shape = [32, 1]\<rparr>"
  let ?d = "\<lparr>ident = 7, shape = [32, 1]\<rparr>" and ?r' = "\<lparr>ident = 8, shape = [32, 1]\<rparr>"
  let ?G' = "?G\<lparr>nodes := nodes ?G @
             [ScalarProductNodeOp exA exMask (- 1), SumNodeOp exMask (- 1), DivNodeOp ?p ?s]\<rparr>"
  let ?G'' = "?G\<lparr>nodes := nodes ?G @
             [MultNodeOp exA exMask, SumNodeOp ?vw (- 1), SumNodeOp exMask (- 1),
              DivNodeOp ?n ?d]\<rparr>"
  have run: "weighted_average ?G exA exMask (- 1) = Inr (?r, ?G')"
    by (simp add: weighted_average_def scalar_product_def sum_Expr_def operator_div_def
          Expression_def exampleGraph_def exA_def exMask_def Shape_axis_def)
  have run': "sum_of_products_over_sum ?G exA exMask (- 1) = Inr (?r', ?G'')"
    by (simp add: sum_of_products_over_sum_def operator_mult_def sum_Expr_def operator_div_def
          Expression_def exampleGraph_def exA_def exMask_def Shape_axis_def)
  from weighted_average_is_scalar_product_over_sum[of ?G exA exMask "- 1"] run
  obtain p s where
    ns: "nodes ?G' = nodes ?G @ [ScalarProductNodeOp exA exMask (- 1), SumNodeOp exMask (- 1),
                                 DivNodeOp p s]" and
    cmp: "\<forall>r' g''. sum_of_products_over_sum ?G exA exMask (- 1) = Inr (r', g'') \<longrightarrow>
              (\<exists>vw n d.
                  nodes g'' = nodes ?G @ [MultNodeOp exA exMask, SumNodeOp vw (- 1),
                                          SumNodeOp exMask (- 1), DivNodeOp n d]
                \<and> shape d = shape s
                \<and> (\<forall>V V'. shape vw = broadcast_shape (shape exA) (shape exMask) \<and> shape n = shape p
                       \<and> computes V ?G' p \<and> computes V ?G' s \<and> computes V ?G' ?r
                       \<and> computes V' g'' vw \<and> computes V' g'' n \<and> computes V' g'' d
                       \<and> computes V' g'' r'
                       \<and> V' exA = V exA \<and> V' exMask = V exMask
                     \<longrightarrow> (\<forall>idx. V ?r idx = V' r' idx)))"
    by blast
  from ns have h: "p = ?p" "s = ?s" by simp_all
  from cmp run' obtain vw n d where
    ns': "nodes ?G'' = nodes ?G @ [MultNodeOp exA exMask, SumNodeOp vw (- 1),
                                          SumNodeOp exMask (- 1), DivNodeOp n d]" and
    vals: "\<forall>V V'. shape vw = broadcast_shape (shape exA) (shape exMask) \<and> shape n = shape p
                       \<and> computes V ?G' p \<and> computes V ?G' s \<and> computes V ?G' ?r
                       \<and> computes V' ?G'' vw \<and> computes V' ?G'' n \<and> computes V' ?G'' d
                       \<and> computes V' ?G'' ?r'
                       \<and> V' exA = V exA \<and> V' exMask = V exMask
                     \<longrightarrow> (\<forall>idx. V ?r idx = V' ?r' idx)"
    by blast
  from ns' have h': "vw = ?vw" "n = ?n" "d = ?d" by simp_all
  have sh: "shape ?vw = broadcast_shape (shape exA) (shape exMask)"
    by (simp add: broadcast_shape_def exA_def exMask_def)
  have c: "computes averagedValues ?G' ?p" "computes averagedValues ?G' ?s"
    "computes averagedValues ?G' ?r"
    by (simp_all add: computes_def nodeOf_def exampleGraph_def averagedValues_def exA_def
          exMask_def Shape_axis_def broadcast_shape_def)
  have c': "computes summedValues ?G'' ?vw" "computes summedValues ?G'' ?n"
    "computes summedValues ?G'' ?d" "computes summedValues ?G'' ?r'"
    by (simp_all add: computes_def nodeOf_def exampleGraph_def summedValues_def exA_def
          exMask_def Shape_axis_def)
  have ag: "summedValues exA = averagedValues exA" "summedValues exMask = averagedValues exMask"
    by (simp_all add: summedValues_def averagedValues_def exA_def exMask_def)
  from vals h h' sh c c' ag have "averagedValues ?r idx = summedValues ?r' idx" for idx
    by simp
  moreover have "averagedValues ?r [0, 0] = 3" by (simp add: averagedValues_def)
  ultimately show ?thesis using run run' by simp
qed

text \<open>
  C8. \<open>swapAxes\<close> resolves both axes against the rank (a negative axis \<open>ax\<close> is
  \<open>rank + ax\<close>). When they resolve to the same index it returns \<open>x\<close> and the graph
  unchanged, as for the pair 0 and \<open>-rank\<close>. Otherwise it calls \<open>transpose\<close> with the
  permutation of \<open>[0, rank)\<close> that exchanges the two positions and fixes the others, which
  constructs a \<open>TransposeNodeOp\<close>.
\<close>

theorem swapAxes_resolves_then_transposes:
  assumes "Shape_axis (shape x) axis1 = Inr i" and "Shape_axis (shape x) axis2 = Inr j"
  shows "int i = (if axis1 < 0 then int (length (shape x)) + axis1 else axis1)
       \<and> int j = (if axis2 < 0 then int (length (shape x)) + axis2 else axis2)
       \<and> swapAxes g x axis1 axis2 =
           (if i = j then Inr (x, g)
            else transpose_axes g x (swap_permutation (length (shape x)) i j))
       \<and> transpose_axes g x (swap_permutation (length (shape x)) i j) =
           Expression g (TransposeNodeOp x (swap_permutation (length (shape x)) i j))
       \<and> mset (swap_permutation (length (shape x)) i j) = mset (map int [0..<length (shape x)])
       \<and> swap_permutation (length (shape x)) i j ! i = int j
       \<and> swap_permutation (length (shape x)) i j ! j = int i
       \<and> (\<forall>k < length (shape x). k \<noteq> i \<and> k \<noteq> j \<longrightarrow> swap_permutation (length (shape x)) i j ! k = int k)
       \<and> (0 < length (shape x) \<longrightarrow> swapAxes g x 0 (- int (length (shape x))) = Inr (x, g))"
proof -
  have lt: "i < length (shape x)" "j < length (shape x)"
    using assms by (auto dest: Shape_axis_Inr)
  have al: "swapAxes g x 0 (- int (length (shape x))) = Inr (x, g)" if "0 < length (shape x)"
  proof -
    have "Shape_axis (shape x) 0 = Inr 0" using that by (simp add: Shape_axis_def)
    moreover have "Shape_axis (shape x) (- int (length (shape x))) = Inr 0"
      using that by (simp add: Shape_axis_def)
    ultimately show ?thesis using swapAxes_resolved[of x 0 0 "- int (length (shape x))" 0 g] by simp
  qed
  show ?thesis
    using Shape_axis_value[OF assms(1)] Shape_axis_value[OF assms(2)]
      swapAxes_resolved[OF assms, of g] swap_permutation_mset[OF lt] lt al
    by (simp add: swap_permutation_nth transpose_axes_def)
qed

theorem swapAxes_resolves_then_transposes_example:
  "Shape_axis (shape exA) 0 = Inr 0 \<and> Shape_axis (shape exA) (- 1) = Inr 1
   \<and> swapAxes (exampleGraph False cpu 0) exA 0 (- 1)
       = transpose_axes (exampleGraph False cpu 0) exA [1, 0]
   \<and> swapAxes (exampleGraph False cpu 0) exA 0 (- 2) = Inr (exA, exampleGraph False cpu 0)"
proof -
  have h1: "Shape_axis (shape exA) 0 = Inr 0" by (simp add: Shape_axis_def exA_def)
  have h2: "Shape_axis (shape exA) (- 1) = Inr 1" by (simp add: Shape_axis_def exA_def)
  have p: "swap_permutation 2 0 1 = [1, 0]" by code_simp
  have l: "length (shape exA) = 2" by (simp add: exA_def)
  show ?thesis
    using swapAxes_resolves_then_transposes[OF h1 h2, of "exampleGraph False cpu 0"] h1 h2 p l
    by simp
qed

text \<open>
  C9. The list forms of \<open>plus\<close>, \<open>swish\<close>, \<open>sigmoid\<close>, \<open>relu\<close>, \<open>leakyrelu\<close> and
  \<open>prelu\<close> fail for every graph and every list of inputs: each aborts with the
  configuration error "Not implemented" and returns no expression. Of the list forms
  only \<open>tanh\<close> constructs a node.
\<close>

theorem list_forms_not_implemented:
  "plus_list g xs = Inl (ConfigurationError ''Not implemented'')
   \<and> swish_list g xs = Inl (ConfigurationError ''Not implemented'')
   \<and> sigmoid_list g xs = Inl (ConfigurationError ''Not implemented'')
   \<and> relu_list g xs = Inl (ConfigurationError ''Not implemented'')
   \<and> leakyrelu_list g xs = Inl (ConfigurationError ''Not implemented'')
   \<and> prelu_list g xs alpha = Inl (ConfigurationError ''Not implemented'')
   \<and> (\<forall>r g'. plus_list g xs \<noteq> Inr (r, g') \<and> swish_list g xs \<noteq> Inr (r, g')
          \<and> sigmoid_list g xs \<noteq> Inr (r, g') \<and> relu_list g xs \<noteq> Inr (r, g')
          \<and> leakyrelu_list g xs \<noteq> Inr (r, g') \<and> prelu_list g xs alpha \<noteq> Inr (r, g'))
   \<and> tanh_list g xs = Expression g (TanhNodeOp xs)"
  by (simp add: plus_list_def swish_list_def sigmoid_list_def relu_list_def
        leakyrelu_list_def prelu_list_def tanh_list_def)

text \<open>
  C10. Let \<open>a\<close> have rank \<open>r \<ge> 1\<close>, and let the softmax node keep the rank of its
  operand. Then \<open>softmax(a, r - 1)\<close> does what \<open>softmax(a, -1)\<close> does: both swaps
  resolve their two axes to \<open>r - 1\<close> and return their argument, so that a successful call
  adds the single node \<open>SoftmaxNodeOp a\<close> and no transposition.
\<close>

theorem softmax_last_axis_by_positive_index:
  assumes "0 < length (shape a)"
    and "\<forall>s. opShape g (SoftmaxNodeOp a) = Inr s \<longrightarrow> length s = length (shape a)"
  shows "softmax g a (int (length (shape a)) - 1) = softmax g a (- 1)
       \<and> softmax g a (- 1) = Expression g (SoftmaxNodeOp a)
       \<and> (\<forall>y g'. softmax g a (int (length (shape a)) - 1) = Inr (y, g') \<longrightarrow>
             nodes g' = nodes g @ [SoftmaxNodeOp a] \<and> \<not> list_ex isTransposeNodeOp [SoftmaxNodeOp a])"
proof -
  let ?r = "length (shape a)"
  have ne: "int ?r - 1 \<noteq> - 1" using assms(1) by simp
  have last: "Shape_axis s (int (length s) - 1) = Inr (length s - 1)"
       "Shape_axis s (- 1) = Inr (length s - 1)" if "0 < length s" for s
    using that by (auto simp: Shape_axis_def Let_def nat_diff_distrib')
  have sw: "swapAxes h x (int (length (shape x)) - 1) (- 1) = Inr (x, h)" if "0 < length (shape x)" for h x
    using swapAxes_resolved[OF last(1)[OF that] last(2)[OF that], of h] by simp
  have eq: "softmax g a (int ?r - 1) = Expression g (SoftmaxNodeOp a)"
  proof (cases "Expression g (SoftmaxNodeOp a)")
    case (Inl e)
    then show ?thesis using ne sw[OF assms(1), of g] by simp
  next
    case (Inr p)
    obtain y g2 where p: "p = (y, g2)" by (cases p)
    from Inr p have "opShape g (SoftmaxNodeOp a) = Inr (shape y)" by (auto dest: Expression_Inr)
    with assms have "length (shape y) = ?r" by simp
    then have "swapAxes g2 y (int ?r - 1) (- 1) = Inr (y, g2)" using sw[of y g2] assms(1) by simp
    then show ?thesis using ne sw[OF assms(1), of g] Inr p by simp
  qed
  show ?thesis using eq by (auto dest: Expression_Inr)
qed

theorem softmax_last_axis_by_positive_index_example:
  "0 < length (shape exA)
   \<and> opShape (exampleGraph False cpu 0) (SoftmaxNodeOp exA) = Inr (shape exA)
   \<and> softmax (exampleGraph False cpu 0) exA 1 = softmax (exampleGraph False cpu 0) exA (- 1)
   \<and> softmax (exampleGraph False cpu 0) exA 1 =
       Inr (\<lparr>ident = 5, shape = [32, 64]\<rparr>,
            (exampleGraph False cpu 0)\<lparr>nodes := nodes (exampleGraph False cpu 0) @ [SoftmaxNodeOp exA]\<rparr>)"
proof -
  have h1: "0 < length (shape exA)" by (simp add: exA_def)
  have h2: "\<forall>s. opShape (exampleGraph False cpu 0) (SoftmaxNodeOp exA) = Inr s \<longrightarrow> length s = length (shape exA)"
    by (auto simp: exampleGraph_def)
  have l: "int (length (shape exA)) - 1 = 1" by (simp add: exA_def)
  have e: "Expression (exampleGraph False cpu 0) (SoftmaxNodeOp exA) = 
       Inr (\<lparr>ident = 5, shape = [32, 64]\<rparr>,
            (exampleGraph False cpu 0)\<lparr>nodes := nodes (exampleGraph False cpu 0) @ [SoftmaxNodeOp exA]\<rparr>)"
    by (simp add: Expression_def exampleGraph_def exA_def)
  have c: "softmax (exampleGraph False cpu 0) exA 1 = softmax (exampleGraph False cpu 0) exA (- 1)"
    using softmax_last_axis_by_positive_index[OF h1 h2] l by simp
  have d: "softmax (exampleGraph False cpu 0) exA 1 =
       Inr (\<lparr>ident = 5, shape = [32, 64]\<rparr>,
            (exampleGraph False cpu 0)\<lparr>nodes := nodes (exampleGraph False cpu 0) @ [SoftmaxNodeOp exA]\<rparr>)"
    using c e by simp
  have h3: "opShape (exampleGraph False cpu 0) (SoftmaxNodeOp exA) = Inr (shape exA)"
    by (simp add: exampleGraph_def)
  show ?thesis
    by (intro conjI) (rule h1, rule h3, rule c, rule d)
qed

end
